theory Spec2Isabelle
  imports Main
begin

section \<open>The Report page component (Report.tsx)\<close>

text \<open>
  The component is a React function component. Each render evaluates the body once and
  creates closures (event handlers, effect callbacks, the functions \<open>embedExistingReport\<close>,
  \<open>refreshEmbedToken\<close>, ...) over the values the hooks returned in that render. A state
  setter does not change what a closure sees; it asks React for a new render. The model
  follows this: every function of the component takes the hook values (\<open>hooks\<close>) and the
  state values (\<open>ReportState\<close>) of the render that created it, and returns the list of calls
  it makes, in order (\<open>action\<close>): state setters, calls to the Power BI SDK, calls to the
  backend Web API, console output. \<open>apply_actions\<close> then gives the component state after
  React has processed the setters.

  An \<open>async\<close> function runs synchronously up to its first \<open>await\<close>; the rest runs when the
  awaited promise resolves. Such a function is modelled as one function per synchronous
  segment. An exception leaves the segment: the calls made before it stay made, and the
  segment's result is \<open>Inl TypeError\<close>.
\<close>

subsection \<open>Data model\<close>

datatype js_error = TypeError

text \<open>\<open>PowerBiReport\<close>, \<open>PowerBiDataset\<close> of models/models; a \<open>name\<close> can be missing.\<close>

record PowerBiReport =
  r_id :: string
  r_name :: "string option"
  r_embedUrl :: string
  r_reportType :: string
  r_datasetId :: string

record PowerBiDataset =
  d_id :: string
  d_name :: "string option"
  d_createReportEmbedURL :: string

text \<open>The \<open>embeddingData\<close> object of the application context, with the fields this file reads.\<close>

record EmbeddingData =
  tenantName :: "string option"
  reports :: "PowerBiReport list option"
  datasets :: "PowerBiDataset list option"
  userCanEdit :: bool
  userCanCreate :: bool
  workspaceArtifactsLoading :: bool

record AccountInfo =
  username :: string
  acc_name :: "string option"

text \<open>
  A point in time as \<open>Date.prototype.getTime\<close> gives it: whole milliseconds since the epoch,
  or \<open>None\<close> for an invalid date (\<open>NaN\<close>). An expiration string is represented by the
  time value that \<open>new Date(s).getTime()\<close> computes for it.
\<close>

type_synonym time_value = "int option"

record EmbedTokenResult =
  tr_embedToken :: string
  tr_embedTokenExpiration :: time_value

text \<open>\<open>ActivityLogEntry\<close>: a field that was never assigned is \<open>None\<close>.\<close>

record ActivityLogEntry =
  CorrelationId :: "string option"
  Activity :: "string option"
  LoginId :: "string option"
  User :: "string option"
  Tenant :: "string option"
  Report :: "string option"
  ReportId :: "string option"
  ReportType :: "string option"
  PageName :: "string option"
  DatasetId :: "string option"
  Dataset :: "string option"
  OriginalReportId :: "string option"
  LoadDuration :: "int option"
  RenderDuration :: "int option"

datatype EmbedType = ExistingReport | NewReport
datatype ReportKind = PowerBiReport | PaginatedReport
datatype ViewMode = FitToPage | FitToWidth | ActualSize

text \<open>The constants of powerbi-models that the file uses.\<close>

datatype Permissions = Read | ReadWrite | Copy | Create | All
datatype ModelsViewMode = View | Edit

text \<open>An object the SDK returned from \<open>embed\<close> or \<open>createReport\<close>, by reference.\<close>

type_synonym embed_ref = nat

record ReportEmbedConfiguration =
  cfg_id :: string
  cfg_embedUrl :: string
  cfg_accessToken :: "string option"
  cfg_viewMode :: ModelsViewMode
  cfg_permissions :: "Permissions option"
  cfg_actionBarVisible :: bool
  cfg_pageNavigationVisible :: bool
  cfg_filtersVisible :: bool
  cfg_filtersExpanded :: bool
  cfg_bookmarksVisible :: bool

record PaginatedReportLoadConfiguration =
  pcfg_id :: string
  pcfg_embedUrl :: string
  pcfg_accessToken :: "string option"
  pcfg_parameterPanelEnabled :: bool
  pcfg_parameterPanelExpanded :: bool

record NewReportEmbedConfiguration =
  ncfg_datasetId :: string
  ncfg_embedUrl :: string
  ncfg_accessToken :: "string option"
  ncfg_actionBarVisible :: bool
  ncfg_filtersExpanded :: bool
  ncfg_filtersVisible :: bool

text \<open>The values the hooks other than \<open>useState\<close> return in a render.\<close>

record hooks =
  isAuthenticated :: bool
  account :: "AccountInfo option"
  url_id :: "string option"
  embeddingData :: "EmbeddingData option"
  embedContainer_current :: bool
  location_search :: "(string \<times> string) list"
  new_ActivityLogEntry :: ActivityLogEntry

text \<open>
  \<open>location_search\<close> is \<open>window.location.search\<close> as \<open>URLSearchParams\<close> parses it, a list of
  name-value pairs in order. \<open>new_ActivityLogEntry\<close> is the object \<open>new ActivityLogEntry()\<close>
  yields; the class is declared in models/models, outside this file, so its field
  defaults are a parameter.
\<close>

text \<open>The \<open>useState\<close> values of a render.\<close>

record ReportState =
  embedToken :: "string option"
  embedTokenExpiration :: "time_value option"
  embedTokenAcquired :: bool
  embedTokenExpirationDisplay :: string
  embeddedReport :: "embed_ref option"
  embeddedNewReport :: "embed_ref option"
  embedType :: "EmbedType option"
  reportType :: "ReportKind option"
  viewMode :: ViewMode
  editMode :: bool
  showNavigation :: bool
  showFiltersPane :: bool
  showBookmarksPane :: bool
  reportPath :: string

text \<open>The closures the file registers as event handlers or hands to a timer.\<close>

datatype handler =
    ExistingLoaded | ExistingRendered | ExistingPageChanged | ExistingSaved | ExistingError
  | PaginatedError
  | NewSaved | NewError

datatype action =
    SetEmbedToken string
  | SetEmbedTokenExpiration time_value
  | SetEmbedTokenAcquired bool
  | SetEmbedTokenExpirationDisplay string
  | SetEmbeddedReport "embed_ref option"
  | SetEmbeddedNewReport "embed_ref option"
  | SetEmbedType EmbedType
  | SetReportType ReportKind
  | SetViewMode ViewMode
  | SetEditMode bool
  | SetShowNavigation bool
  | SetShowFiltersPane bool
  | SetShowBookmarksPane bool
  | SetReportPath string
  | PowerBiReset
  | PowerBiEmbedReport ReportEmbedConfiguration
  | PowerBiEmbedPaginated PaginatedReportLoadConfiguration
  | PowerBiCreateReport NewReportEmbedConfiguration
  | Off embed_ref string
  | On embed_ref string handler
  | SetAccessToken embed_ref string
  | GetCorrelationId embed_ref
  | GetActivePage embed_ref
  | GetEmbedToken
  | LogActivity ActivityLogEntry
  | RefreshEmbeddingData
  | Navigate string
  | SetTimeout nat "time_value option"
  | ConsoleLog string string

text \<open>
  \<open>SetTimeout ms e\<close> is \<open>window.setTimeout(() => monitorTokenExpiration(e), ms)\<close>, the only
  timer of the file.
\<close>

fun apply_action :: "action \<Rightarrow> ReportState \<Rightarrow> ReportState" where
  "apply_action (SetEmbedToken t) s = s\<lparr>embedToken := Some t\<rparr>"
| "apply_action (SetEmbedTokenExpiration e) s = s\<lparr>embedTokenExpiration := Some e\<rparr>"
| "apply_action (SetEmbedTokenAcquired b) s = s\<lparr>embedTokenAcquired := b\<rparr>"
| "apply_action (SetEmbedTokenExpirationDisplay d) s = s\<lparr>embedTokenExpirationDisplay := d\<rparr>"
| "apply_action (SetEmbeddedReport r) s = s\<lparr>embeddedReport := r\<rparr>"
| "apply_action (SetEmbeddedNewReport r) s = s\<lparr>embeddedNewReport := r\<rparr>"
| "apply_action (SetEmbedType t) s = s\<lparr>embedType := Some t\<rparr>"
| "apply_action (SetReportType t) s = s\<lparr>reportType := Some t\<rparr>"
| "apply_action (SetViewMode v) s = s\<lparr>viewMode := v\<rparr>"
| "apply_action (SetEditMode b) s = s\<lparr>editMode := b\<rparr>"
| "apply_action (SetShowNavigation b) s = s\<lparr>showNavigation := b\<rparr>"
| "apply_action (SetShowFiltersPane b) s = s\<lparr>showFiltersPane := b\<rparr>"
| "apply_action (SetShowBookmarksPane b) s = s\<lparr>showBookmarksPane := b\<rparr>"
| "apply_action (SetReportPath p) s = s\<lparr>reportPath := p\<rparr>"
| "apply_action _ s = s"

definition apply_actions :: "action list \<Rightarrow> ReportState \<Rightarrow> ReportState" where
  "apply_actions acts s = foldl (\<lambda>s a. apply_action a s) s acts"

text \<open>The initial \<open>useState\<close> values (lines 40 to 55).\<close>

definition initial_state :: ReportState where
  "initial_state =
     \<lparr>embedToken = None, embedTokenExpiration = None, embedTokenAcquired = False,
      embedTokenExpirationDisplay = '''', embeddedReport = None, embeddedNewReport = None,
      embedType = None, reportType = None, viewMode = FitToPage, editMode = False,
      showNavigation = True, showFiltersPane = True, showBookmarksPane = False,
      reportPath = ''''\<rparr>"

subsection \<open>JavaScript helpers\<close>

text \<open>Truthiness of an optional string: \<open>undefined\<close>, \<open>null\<close> and \<open>""\<close> are falsy.\<close>

definition truthy :: "string option \<Rightarrow> bool" where
  "truthy x = (case x of None \<Rightarrow> False | Some s \<Rightarrow> s \<noteq> [])"

text \<open>An optional string as an operand of string \<open>+\<close>: \<open>null\<close> prints as \<open>null\<close>.\<close>

definition js_str :: "string option \<Rightarrow> string" where
  "js_str x = (case x of None \<Rightarrow> ''null'' | Some s \<Rightarrow> s)"

text \<open>\<open>URLSearchParams.get\<close>: the first value of the name, or \<open>null\<close>.\<close>

definition params_get :: "(string \<times> string) list \<Rightarrow> string \<Rightarrow> string option" where
  "params_get ps k = map_of ps k"

subsection \<open>embedExistingReport (lines 57 to 191)\<close>

text \<open>Lines 75 to 80, shared by the three embedding functions up to the text of the path.\<close>

definition report_path_actions :: "hooks \<Rightarrow> string option \<Rightarrow> string \<Rightarrow> js_error + action list" where
  "report_path_actions h nm suffix =
     (if truthy nm then
        (case embeddingData h of
           None \<Rightarrow> Inl TypeError
         | Some ed \<Rightarrow> Inr [SetReportPath (js_str (tenantName ed) @ suffix)])
      else Inr [SetReportPath ''...''])"

text \<open>
  Lines 83 to 95. \<open>embeddingData.userCanEdit\<close> throws on a null \<open>embeddingData\<close>; an object
  is truthy, so the second test is \<open>!embeddingData.userCanCreate\<close>. A chain that matches
  nothing leaves \<open>permissions\<close> undefined.
\<close>

definition determine_permissions :: "EmbeddingData option \<Rightarrow> js_error + Permissions option" where
  "determine_permissions edo =
     (case edo of
        None \<Rightarrow> Inl TypeError
      | Some ed \<Rightarrow>
          Inr (if userCanEdit ed \<and> userCanCreate ed then Some All
               else if \<not> userCanCreate ed then Some ReadWrite
               else if \<not> userCanEdit ed \<and> userCanCreate ed then Some Copy
               else if \<not> userCanEdit ed \<and> \<not> userCanCreate ed then Some Read
               else None))"

definition openInEditMode :: "hooks \<Rightarrow> bool" where
  "openInEditMode h = (params_get (location_search h) ''edit'' = Some ''true'')"

definition existing_config ::
  "hooks \<Rightarrow> ReportState \<Rightarrow> PowerBiReport \<Rightarrow> Permissions option \<Rightarrow> ReportEmbedConfiguration" where
  "existing_config h st rep perms =
     \<lparr>cfg_id = r_id rep, cfg_embedUrl = r_embedUrl rep, cfg_accessToken = embedToken st,
      cfg_viewMode = (if openInEditMode h then Edit else View),
      cfg_permissions = perms,
      cfg_actionBarVisible = False, cfg_pageNavigationVisible = True,
      cfg_filtersVisible = False, cfg_filtersExpanded = False,
      cfg_bookmarksVisible = False\<rparr>"

text \<open>
  The function has no \<open>await\<close>: one segment. \<open>emb\<close> is the object \<open>window.powerbi.embed\<close>
  returns.
\<close>

definition embedExistingReport ::
  "hooks \<Rightarrow> ReportState \<Rightarrow> embed_ref \<Rightarrow> PowerBiReport \<Rightarrow> action list \<times> (js_error + unit)" where
  "embedExistingReport h st emb rep =
     (let a1 = [SetEmbedType ExistingReport, SetReportType PowerBiReport,
                SetEditMode (openInEditMode h),
                SetShowNavigation True, SetShowFiltersPane False, SetShowBookmarksPane False,
                SetViewMode FitToPage]
      in case report_path_actions h (r_name rep) ('' > '' @ js_str (r_name rep)) of
           Inl e \<Rightarrow> (a1, Inl e)
         | Inr a2 \<Rightarrow>
             (case determine_permissions (embeddingData h) of
                Inl e \<Rightarrow> (a1 @ a2, Inl e)
              | Inr perms \<Rightarrow>
                  (a1 @ a2 @
                   [PowerBiReset, PowerBiEmbedReport (existing_config h st rep perms),
                    SetEmbeddedReport (Some emb), SetEmbeddedNewReport None,
                    Off emb ''loaded'', On emb ''loaded'' ExistingLoaded,
                    Off emb ''rendered'', On emb ''rendered'' ExistingRendered,
                    Off emb ''pageChanged'', On emb ''pageChanged'' ExistingPageChanged,
                    Off emb ''saved'', On emb ''saved'' ExistingSaved,
                    Off emb ''error'', On emb ''error'' ExistingError],
                   Inr ())))"

subsection \<open>Activity logging (lines 298 to 375)\<close>

text \<open>
  Each function fills a fresh \<open>ActivityLogEntry\<close> and awaits \<open>AppOwnsDataWebApi.LogActivity\<close>:
  one segment, ending in the call. \<open>account.username\<close> throws on a null account,
  \<open>embeddingData.tenantName\<close> on a null \<open>embeddingData\<close>, \<open>embeddingData.datasets.find\<close> on
  missing \<open>datasets\<close>.
\<close>

text \<open>\<open>(datasets.find((dataset) => dataset.id === i))?.name\<close>\<close>

definition find_dataset_name_opt :: "PowerBiDataset list \<Rightarrow> string \<Rightarrow> string option" where
  "find_dataset_name_opt ds i =
     (case find (\<lambda>d. d_id d = i) ds of None \<Rightarrow> None | Some d \<Rightarrow> d_name d)"

text \<open>\<open>(datasets.find((dataset) => dataset.id === i)).name\<close>: throws when nothing is found.\<close>

definition find_dataset_name :: "PowerBiDataset list \<Rightarrow> string \<Rightarrow> js_error + string option" where
  "find_dataset_name ds i =
     (case find (\<lambda>d. d_id d = i) ds of None \<Rightarrow> Inl TypeError | Some d \<Rightarrow> Inr (d_name d))"

definition logViewReportActivity ::
  "hooks \<Rightarrow> string \<Rightarrow> PowerBiReport \<Rightarrow> string \<Rightarrow> int option \<Rightarrow> int option
   \<Rightarrow> js_error + action list" where
  "logViewReportActivity h correlationId rep pageName loadDuration renderDuration =
     (case account h of None \<Rightarrow> Inl TypeError | Some acc \<Rightarrow>
      case embeddingData h of None \<Rightarrow> Inl TypeError | Some ed \<Rightarrow>
      case datasets ed of None \<Rightarrow> Inl TypeError | Some ds \<Rightarrow>
        Inr [LogActivity ((new_ActivityLogEntry h)
               \<lparr>CorrelationId := Some correlationId,
                Activity := Some ''ViewReport'',
                LoginId := Some (username acc),
                User := acc_name acc,
                Tenant := tenantName ed,
                Report := r_name rep,
                ReportId := Some (r_id rep),
                ReportType := Some (r_reportType rep),
                PageName := Some pageName,
                DatasetId := Some (r_datasetId rep),
                Dataset := find_dataset_name_opt ds (r_datasetId rep),
                LoadDuration := loadDuration,
                RenderDuration := renderDuration\<rparr>)])"

definition logPageChangedActivity ::
  "hooks \<Rightarrow> string \<Rightarrow> PowerBiReport \<Rightarrow> string \<Rightarrow> int option \<Rightarrow> js_error + action list" where
  "logPageChangedActivity h correlationId rep pageName renderDuration =
     (case account h of None \<Rightarrow> Inl TypeError | Some acc \<Rightarrow>
      case embeddingData h of None \<Rightarrow> Inl TypeError | Some ed \<Rightarrow>
      case datasets ed of None \<Rightarrow> Inl TypeError | Some ds \<Rightarrow>
        Inr [LogActivity ((new_ActivityLogEntry h)
               \<lparr>CorrelationId := Some correlationId,
                Activity := Some ''PageChanged'',
                LoginId := Some (username acc),
                User := acc_name acc,
                Tenant := tenantName ed,
                Report := r_name rep,
                ReportId := Some (r_id rep),
                ReportType := Some (r_reportType rep),
                PageName := Some pageName,
                DatasetId := Some (r_datasetId rep),
                Dataset := find_dataset_name_opt ds (r_datasetId rep),
                RenderDuration := renderDuration\<rparr>)])"

definition logEditReportActivity :: "hooks \<Rightarrow> PowerBiReport \<Rightarrow> js_error + action list" where
  "logEditReportActivity h rep =
     (case account h of None \<Rightarrow> Inl TypeError | Some acc \<Rightarrow>
      case embeddingData h of None \<Rightarrow> Inl TypeError | Some ed \<Rightarrow>
      case datasets ed of None \<Rightarrow> Inl TypeError | Some ds \<Rightarrow>
      case find_dataset_name ds (r_datasetId rep) of Inl e \<Rightarrow> Inl e | Inr dn \<Rightarrow>
        Inr [LogActivity ((new_ActivityLogEntry h)
               \<lparr>CorrelationId := Some [],
                Activity := Some ''EditReport'',
                LoginId := Some (username acc),
                User := acc_name acc,
                Tenant := tenantName ed,
                Report := r_name rep,
                ReportId := Some (r_id rep),
                ReportType := Some ''PowerBIReport'',
                DatasetId := Some (r_datasetId rep),
                Dataset := dn\<rparr>)])"

definition logCopyReportActivity ::
  "hooks \<Rightarrow> PowerBiReport \<Rightarrow> string \<Rightarrow> string \<Rightarrow> js_error + action list" where
  "logCopyReportActivity h orginalReport reportId reportName =
     (case account h of None \<Rightarrow> Inl TypeError | Some acc \<Rightarrow>
      case embeddingData h of None \<Rightarrow> Inl TypeError | Some ed \<Rightarrow>
      case datasets ed of None \<Rightarrow> Inl TypeError | Some ds \<Rightarrow>
      case find_dataset_name ds (r_datasetId orginalReport) of Inl e \<Rightarrow> Inl e | Inr dn \<Rightarrow>
        Inr [LogActivity ((new_ActivityLogEntry h)
               \<lparr>Activity := Some ''CopyReport'',
                LoginId := Some (username acc),
                User := acc_name acc,
                Tenant := tenantName ed,
                Report := Some reportName,
                ReportId := Some reportId,
                ReportType := Some ''PowerBIReport'',
                OriginalReportId := Some (r_id orginalReport),
                DatasetId := Some (r_datasetId orginalReport),
                Dataset := dn\<rparr>)])"

definition logCreateReportActivity ::
  "hooks \<Rightarrow> PowerBiDataset \<Rightarrow> string \<Rightarrow> string \<Rightarrow> js_error + action list" where
  "logCreateReportActivity h dataset reportId reportName =
     (case account h of None \<Rightarrow> Inl TypeError | Some acc \<Rightarrow>
      case embeddingData h of None \<Rightarrow> Inl TypeError | Some ed \<Rightarrow>
        Inr [LogActivity ((new_ActivityLogEntry h)
               \<lparr>Activity := Some ''CreateReport'',
                LoginId := Some (username acc),
                User := acc_name acc,
                Tenant := tenantName ed,
                Report := Some reportName,
                ReportId := Some reportId,
                ReportType := Some ''PowerBIReport'',
                DatasetId := Some (d_id dataset),
                Dataset := d_name dataset\<rparr>)])"

subsection \<open>embedPaginatedReport (lines 193 to 235)\<close>

definition paginated_config ::
  "ReportState \<Rightarrow> PowerBiReport \<Rightarrow> PaginatedReportLoadConfiguration" where
  "paginated_config st rep =
     \<lparr>pcfg_id = r_id rep, pcfg_embedUrl = r_embedUrl rep, pcfg_accessToken = embedToken st,
      pcfg_parameterPanelEnabled = True, pcfg_parameterPanelExpanded = True\<rparr>"

text \<open>
  First segment: up to \<open>await logViewReportActivity(...)\<close>. An exception inside
  \<open>logViewReportActivity\<close> rejects the awaited promise and ends \<open>embedPaginatedReport\<close>.
\<close>

definition embedPaginatedReport ::
  "hooks \<Rightarrow> ReportState \<Rightarrow> embed_ref \<Rightarrow> PowerBiReport \<Rightarrow> action list \<times> (js_error + unit)" where
  "embedPaginatedReport h st emb rep =
     (case report_path_actions h (r_name rep) ('' > '' @ js_str (r_name rep)) of
        Inl e \<Rightarrow> ([PowerBiReset], Inl e)
      | Inr a2 \<Rightarrow>
          (let a3 = [PowerBiReset] @ a2 @
                    [SetEmbedType ExistingReport, SetReportType PaginatedReport,
                     PowerBiEmbedPaginated (paginated_config st rep),
                     SetEmbeddedReport (Some emb), SetEmbeddedNewReport None]
           in case logViewReportActivity h [] rep [] None None of
                Inl e \<Rightarrow> (a3, Inl e)
              | Inr a4 \<Rightarrow> (a3 @ a4, Inr ())))"

text \<open>Second segment: after the \<open>LogActivity\<close> promise has resolved.\<close>

definition embedPaginatedReport_logged :: "embed_ref \<Rightarrow> action list" where
  "embedPaginatedReport_logged emb = [Off emb ''error'', On emb ''error'' PaginatedError]"

subsection \<open>embedNewReport (lines 237 to 287)\<close>

definition new_report_config ::
  "ReportState \<Rightarrow> PowerBiDataset \<Rightarrow> NewReportEmbedConfiguration" where
  "new_report_config st ds =
     \<lparr>ncfg_datasetId = d_id ds, ncfg_embedUrl = d_createReportEmbedURL ds,
      ncfg_accessToken = embedToken st, ncfg_actionBarVisible = False,
      ncfg_filtersExpanded = False, ncfg_filtersVisible = True\<rparr>"

text \<open>
  One segment. \<open>newemb\<close> is the object \<open>createReport\<close> returns, bound to the local
  \<open>embeddedNewReport\<close>. There is no local \<open>embeddedReport\<close> in this function: the name on
  lines 271 and 282 is the state value of the render, and \<open>.off\<close> on \<open>null\<close> throws.
\<close>

definition embedNewReport ::
  "hooks \<Rightarrow> ReportState \<Rightarrow> embed_ref \<Rightarrow> PowerBiDataset \<Rightarrow> action list \<times> (js_error + unit)" where
  "embedNewReport h st newemb ds =
     (let a1 = [SetEmbedType NewReport, SetReportType PowerBiReport]
      in case report_path_actions h (d_name ds) '' > New Report [not saved]'' of
           Inl e \<Rightarrow> (a1, Inl e)
         | Inr a2 \<Rightarrow>
             (let a3 = a1 @ a2 @
                       [PowerBiCreateReport (new_report_config st ds),
                        SetEmbeddedNewReport (Some newemb), SetEmbeddedReport None]
              in case embeddedReport st of
                   None \<Rightarrow> (a3, Inl TypeError)
                 | Some old \<Rightarrow>
                     (a3 @ [Off old ''saved'', On newemb ''saved'' NewSaved,
                            Off old ''error'', On newemb ''error'' NewError],
                      Inr ())))"

subsection \<open>The error handlers (lines 187, 231, 283)\<close>

text \<open>The handler's argument is the SDK's event object, printed by \<open>console.log\<close>.\<close>

fun error_handler :: "handler \<Rightarrow> string \<Rightarrow> action list" where
  "error_handler ExistingError event = [ConsoleLog ''ERROR in embedded report'' event]"
| "error_handler PaginatedError event = [ConsoleLog ''ERROR in paginated report'' event]"
| "error_handler NewError event = [ConsoleLog ''ERROR in embedded report'' event]"
| "error_handler _ event = []"

text \<open>The handlers a list of calls registers for an event name, in order.\<close>

fun handlers_for :: "string \<Rightarrow> action list \<Rightarrow> handler list" where
  "handlers_for n [] = []"
| "handlers_for n (On e n' f # as) = (if n' = n then f # handlers_for n as else handlers_for n as)"
| "handlers_for n (_ # as) = handlers_for n as"

subsection \<open>Token acquisition and refresh (lines 377 to 419)\<close>

text \<open>\<open>String(n)\<close> for an integer \<open>n\<close> (below the magnitude where JavaScript switches to
  exponent notation), and \<open>padStart\<close> with a one-character filler.\<close>

fun digits :: "nat \<Rightarrow> string" where
  "digits n = (if n < 10 then [''0123456789'' ! n]
               else digits (n div 10) @ [''0123456789'' ! (n mod 10)])"

declare digits.simps [simp del]

definition js_String :: "int \<Rightarrow> string" where
  "js_String i = (if i < 0 then CHR ''-'' # digits (nat (- i)) else digits (nat i))"

definition padStart :: "nat \<Rightarrow> char \<Rightarrow> string \<Rightarrow> string" where
  "padStart n c s = replicate (n - length s) c @ s"

text \<open>The \<open>%\<close> operator on integers: the result has the sign of the dividend.\<close>

definition js_rem :: "int \<Rightarrow> int \<Rightarrow> int" where
  "js_rem a b = sgn a * (\<bar>a\<bar> mod \<bar>b\<bar>)"

text \<open>
  \<open>new Date(e).getTime()\<close> for the argument of \<open>monitorTokenExpiration\<close>: \<open>null\<close> (the
  initial state value) converts to the number 0, a string to its time value.
\<close>

definition getTime :: "time_value option \<Rightarrow> int option" where
  "getTime e = (case e of None \<Rightarrow> Some 0 | Some t \<Rightarrow> t)"

text \<open>
  Line 405, with \<open>now\<close> the value of \<open>new Date().getTime()\<close>. Both time values are
  integers, so \<open>Math.floor\<close> of the quotient is the floor division; an invalid date gives
  \<open>NaN\<close> (\<open>None\<close>).
\<close>

definition secondsToExpire :: "int \<Rightarrow> time_value option \<Rightarrow> int option" where
  "secondsToExpire now e =
     (case getTime e of None \<Rightarrow> None | Some t \<Rightarrow> Some ((t - now) div 1000))"

text \<open>Line 415: the text before the comparison with the current display.\<close>

definition timeToExpire :: "int option \<Rightarrow> string" where
  "timeToExpire secs =
     (case secs of
        None \<Rightarrow> ''Token Expiration: NaN:NaN''
      | Some s \<Rightarrow> ''Token Expiration: '' @ padStart 2 (CHR ''0'') (js_String (s div 60))
                    @ '':'' @ padStart 2 (CHR ''0'') (js_String (js_rem s 60)))"

text \<open>
  \<open>refreshEmbedToken\<close>, first segment: the request. \<open>monitorTokenExpiration\<close> calls
  \<open>refreshEmbedToken()\<close> without awaiting it, so this segment is all it runs of it.
\<close>

definition refreshEmbedToken :: "action list" where
  "refreshEmbedToken = [GetEmbedToken]"

text \<open>
  A comparison with \<open>NaN\<close> is false, so an invalid date takes the \<open>else\<close> branch.
\<close>

definition monitorTokenExpiration :: "ReportState \<Rightarrow> int \<Rightarrow> time_value option \<Rightarrow> action list" where
  "monitorTokenExpiration st now e =
     (let secs = secondsToExpire now e;
          secondsBeforeExpirationForAutoRefresh = 2 * 60
      in if (case secs of None \<Rightarrow> False | Some s \<Rightarrow> s < secondsBeforeExpirationForAutoRefresh)
         then refreshEmbedToken
         else (let t = timeToExpire secs;
                   t' = (if t = embedTokenExpirationDisplay st then t @ '' '' else t)
               in [SetEmbedTokenExpirationDisplay t']))"

text \<open>\<open>refreshEmbedToken\<close>, second segment: \<open>GetEmbedToken\<close> has resolved with \<open>tokenResult\<close>.\<close>

definition refreshEmbedToken_resolved ::
  "ReportState \<Rightarrow> int \<Rightarrow> EmbedTokenResult \<Rightarrow> action list" where
  "refreshEmbedToken_resolved st now tokenResult =
     [SetEmbedToken (tr_embedToken tokenResult),
      SetEmbedTokenExpiration (tr_embedTokenExpiration tokenResult),
      SetEmbedTokenExpirationDisplay ''refreshing embed token'']
     @ monitorTokenExpiration st now (Some (tr_embedTokenExpiration tokenResult))
     @ (case embeddedReport st of
          None \<Rightarrow> []
        | Some r \<Rightarrow> [SetAccessToken r (tr_embedToken tokenResult)])
     @ (case embeddedNewReport st of
          None \<Rightarrow> []
        | Some r \<Rightarrow> [SetAccessToken r (tr_embedToken tokenResult)])"

definition getEmbedToken :: "action list" where
  "getEmbedToken = [GetEmbedToken]"

definition getEmbedToken_resolved ::
  "ReportState \<Rightarrow> int \<Rightarrow> EmbedTokenResult \<Rightarrow> action list" where
  "getEmbedToken_resolved st now tokenResult =
     [SetEmbedToken (tr_embedToken tokenResult),
      SetEmbedTokenExpiration (tr_embedTokenExpiration tokenResult),
      SetEmbedTokenAcquired True]
     @ monitorTokenExpiration st now (Some (tr_embedTokenExpiration tokenResult))"

subsection \<open>The effects and the rendered page (lines 429 to 499)\<close>

text \<open>
  The embed effect (lines 430 to 459) calls at most one of four functions, and does not
  await it. \<open>embeddingData.tenantName\<close> is read only when the first two tests hold.
\<close>

datatype effect_call =
    NoCall
  | CallGetEmbedToken
  | CallEmbedExistingReport PowerBiReport
  | CallEmbedPaginatedReport PowerBiReport
  | CallEmbedNewReport PowerBiDataset

text \<open>\<open>xs?.find((x) => x.id === id)\<close>\<close>

definition find_by_id :: "('a \<Rightarrow> string) \<Rightarrow> 'a list option \<Rightarrow> string option \<Rightarrow> 'a option" where
  "find_by_id key xs i = (case xs of None \<Rightarrow> None | Some l \<Rightarrow> find (\<lambda>x. Some (key x) = i) l)"

definition embed_effect :: "hooks \<Rightarrow> ReportState \<Rightarrow> js_error + effect_call" where
  "embed_effect h st =
     (if isAuthenticated h \<and> embedContainer_current h then
        (case embeddingData h of
           None \<Rightarrow> Inl TypeError
         | Some ed \<Rightarrow>
             if tenantName ed \<noteq> None then
               (if \<not> embedTokenAcquired st then Inr CallGetEmbedToken
                else (case find_by_id r_id (reports ed) (url_id h) of
                        Some report \<Rightarrow>
                          if r_reportType report = ''PowerBIReport''
                          then Inr (CallEmbedExistingReport report)
                          else Inr (CallEmbedPaginatedReport report)
                      | None \<Rightarrow>
                          (case find_by_id d_id (datasets ed) (url_id h) of
                             Some dataset \<Rightarrow> Inr (CallEmbedNewReport dataset)
                           | None \<Rightarrow> Inr NoCall)))
             else Inr NoCall)
      else Inr NoCall)"

text \<open>
  The first segment of the function the effect calls. \<open>emb\<close> is the object the SDK
  returns, should the function reach \<open>embed\<close> or \<open>createReport\<close>.
\<close>

fun run_call :: "hooks \<Rightarrow> ReportState \<Rightarrow> embed_ref \<Rightarrow> effect_call \<Rightarrow> action list" where
  "run_call h st emb NoCall = []"
| "run_call h st emb CallGetEmbedToken = getEmbedToken"
| "run_call h st emb (CallEmbedExistingReport r) = fst (embedExistingReport h st emb r)"
| "run_call h st emb (CallEmbedPaginatedReport r) = fst (embedPaginatedReport h st emb r)"
| "run_call h st emb (CallEmbedNewReport d) = fst (embedNewReport h st emb d)"

text \<open>The token timer effect (lines 462 to 468) and its dependency array.\<close>

definition token_timer_effect :: "hooks \<Rightarrow> ReportState \<Rightarrow> action list" where
  "token_timer_effect h st =
     (if isAuthenticated h \<and> embedTokenAcquired st
      then [SetTimeout 1000 (embedTokenExpiration st)] else [])"



text \<open>What the component returns (lines 470 to 499).\<close>

datatype page =
    PageNotAccessible
  | DataLoading
  | ReportPage string string bool bool

definition render :: "hooks \<Rightarrow> ReportState \<Rightarrow> js_error + page" where
  "render h st =
     (if \<not> isAuthenticated h then Inr PageNotAccessible
      else (case embeddingData h of
              None \<Rightarrow> Inl TypeError
            | Some ed \<Rightarrow>
                if workspaceArtifactsLoading ed then Inr DataLoading
                else Inr (ReportPage (reportPath st) (embedTokenExpirationDisplay st)
                            (embedType st = Some ExistingReport
                             \<and> reportType st = Some PowerBiReport)
                            (embedType st = Some NewReport))))"

text \<open>
  The calls the two effects make after a render, embed effect first. (The layout effect,
  lines 422 to 427, only sets the height of the container.)
\<close>

definition effects_of_render :: "hooks \<Rightarrow> ReportState \<Rightarrow> embed_ref \<Rightarrow> action list" where
  "effects_of_render h st emb =
     (case embed_effect h st of Inl e \<Rightarrow> [] | Inr c \<Rightarrow> run_call h st emb c)
     @ token_timer_effect h st"


subsection \<open>The event handlers of an embedded Power BI report (lines 117 to 189)\<close>

text \<open>
  \<open>embedExistingReport\<close> declares five variables that its handlers share (lines 118 to
  122). They belong to one call of \<open>embedExistingReport\<close>, that is, to one embedding.
\<close>

record session =
  timerStart :: int
  initialLoadComplete :: bool
  pageChangeInProgress :: bool
  loadDuration :: "int option"
  renderDuration :: "int option"

definition start_session :: "int \<Rightarrow> session" where
  "start_session now =
     \<lparr>timerStart = now, initialLoadComplete = False, pageChangeInProgress = False,
      loadDuration = None, renderDuration = None\<rparr>"

text \<open>
  The \<open>rendered\<close> and \<open>saved\<close> handlers are \<open>async\<close> functions with \<open>await\<close>s, and the SDK
  does not wait for a handler before it delivers the next event. A handler call that has
  reached an \<open>await\<close> is kept as a \<open>pending\<close> entry, which says where it continues; its
  position in the list identifies the call. \<open>var correlationId\<close> is local to the call, so
  it is kept in the entry.
\<close>

datatype pending =
    ViewCorrelationId
  | ViewActivePage string
  | ViewLogged
  | PageCorrelationId
  | PageActivePage string
  | PageLogged
  | SavedToken string string
  | SavedData string string
  | Finished

text \<open>The value a promise resolves with.\<close>

datatype response = Text string | Token EmbedTokenResult | Done

text \<open>
  What reaches the handlers: the SDK's events, each with the value \<open>Date.now()\<close> has when
  the handler runs (\<open>Saved\<close> with \<open>event.detail.saveAs\<close>, \<open>reportObjectId\<close> and \<open>reportName\<close>),
  and the settling of the promise a handler call awaits.
\<close>

datatype sdk_event =
    Loaded int
  | Rendered int
  | PageChanged int
  | Saved bool string string
  | Error string
  | Resolved nat int response
  | Rejected nat

record run =
  sess :: session
  pend :: "pending list"
  calls :: "action list"

definition start_run :: "int \<Rightarrow> run" where
  "start_run now = \<lparr>sess = start_session now, pend = [], calls = []\<rparr>"

text \<open>Lines 146 to 153, up to the first \<open>await\<close>, in handler call \<open>i\<close>.\<close>

definition page_changed_block :: "embed_ref \<Rightarrow> nat \<Rightarrow> int \<Rightarrow> run \<Rightarrow> run" where
  "page_changed_block emb i now r =
     (if pageChangeInProgress (sess r) then
        r\<lparr>sess := (sess r)\<lparr>pageChangeInProgress := False,
                            renderDuration := Some (now - timerStart (sess r))\<rparr>,
          pend := (pend r)[i := PageCorrelationId],
          calls := calls r @ [GetCorrelationId emb]\<rparr>
      else r\<lparr>pend := (pend r)[i := Finished]\<rparr>)"

text \<open>
  Line 143, up to the \<open>await\<close>. An exception in \<open>logViewReportActivity\<close> rejects the
  awaited promise, which ends the handler call.
\<close>

definition view_block_log :: "hooks \<Rightarrow> PowerBiReport \<Rightarrow> nat \<Rightarrow> string \<Rightarrow> string \<Rightarrow> run \<Rightarrow> run" where
  "view_block_log h rep i correlationId pageName r =
     (case logViewReportActivity h correlationId rep pageName
             (loadDuration (sess r)) (renderDuration (sess r)) of
        Inl e \<Rightarrow> r\<lparr>pend := (pend r)[i := Finished]\<rparr>
      | Inr a \<Rightarrow> r\<lparr>pend := (pend r)[i := ViewLogged], calls := calls r @ a\<rparr>)"

text \<open>
  Handler call \<open>i\<close> continues after its promise resolved. In the \<open>saved\<close> handler,
  \<open>logCopyReportActivity\<close> is not awaited: an exception in it does not stop \<open>navigate\<close>.
  A value of the wrong kind for the awaited call does not occur; the state is kept.
\<close>

fun resume ::
  "hooks \<Rightarrow> ReportState \<Rightarrow> embed_ref \<Rightarrow> PowerBiReport \<Rightarrow> nat \<Rightarrow> int
   \<Rightarrow> pending \<Rightarrow> response \<Rightarrow> run \<Rightarrow> run" where
  "resume h st emb rep i now ViewCorrelationId (Text correlationId) r =
     (if r_reportType rep = ''PowerBIReport''
      then r\<lparr>pend := (pend r)[i := ViewActivePage correlationId],
             calls := calls r @ [GetActivePage emb]\<rparr>
      else view_block_log h rep i correlationId [] r)"
| "resume h st emb rep i now (ViewActivePage correlationId) (Text pageName) r =
     view_block_log h rep i correlationId pageName r"
| "resume h st emb rep i now ViewLogged Done r =
     page_changed_block emb i now (r\<lparr>sess := (sess r)\<lparr>initialLoadComplete := True\<rparr>\<rparr>)"
| "resume h st emb rep i now PageCorrelationId (Text correlationId) r =
     r\<lparr>pend := (pend r)[i := PageActivePage correlationId],
       calls := calls r @ [GetActivePage emb]\<rparr>"
| "resume h st emb rep i now (PageActivePage correlationId) (Text pageName) r =
     (case logPageChangedActivity h correlationId rep pageName (renderDuration (sess r)) of
        Inl e \<Rightarrow> r\<lparr>pend := (pend r)[i := Finished]\<rparr>
      | Inr a \<Rightarrow> r\<lparr>pend := (pend r)[i := PageLogged], calls := calls r @ a\<rparr>)"
| "resume h st emb rep i now PageLogged Done r = r\<lparr>pend := (pend r)[i := Finished]\<rparr>"
| "resume h st emb rep i now (SavedToken newReportId newReportName) (Token tokenResult) r =
     r\<lparr>pend := (pend r)[i := SavedData newReportId newReportName],
       calls := calls r @ refreshEmbedToken_resolved st now tokenResult
                @ [RefreshEmbeddingData]\<rparr>"
| "resume h st emb rep i now (SavedData newReportId newReportName) Done r =
     r\<lparr>pend := (pend r)[i := Finished],
       calls := calls r
                @ (case logCopyReportActivity h rep newReportId newReportName of
                     Inl e \<Rightarrow> [] | Inr a \<Rightarrow> a)
                @ [Navigate (''/reports/'' @ newReportId @ ''/?edit=true'')]\<rparr>"
| "resume h st emb rep i now p v r = r"

text \<open>
  One event. \<open>h\<close> and \<open>st\<close> are the hook and state values of the render whose
  \<open>embedExistingReport\<close> registered the handlers, \<open>emb\<close> the embedded report, \<open>rep\<close> its
  descriptor.
\<close>

fun step :: "hooks \<Rightarrow> ReportState \<Rightarrow> embed_ref \<Rightarrow> PowerBiReport \<Rightarrow> run \<Rightarrow> sdk_event \<Rightarrow> run" where
  "step h st emb rep r (Loaded now) =
     r\<lparr>sess := (sess r)\<lparr>loadDuration := Some (now - timerStart (sess r))\<rparr>\<rparr>"
| "step h st emb rep r (Rendered now) =
     (let i = length (pend r); r1 = r\<lparr>pend := pend r @ [Finished]\<rparr>
      in if \<not> initialLoadComplete (sess r) then
           r1\<lparr>sess := (sess r)\<lparr>renderDuration := Some (now - timerStart (sess r))\<rparr>,
              pend := (pend r1)[i := ViewCorrelationId],
              calls := calls r @ [GetCorrelationId emb]\<rparr>
         else page_changed_block emb i now r1)"
| "step h st emb rep r (PageChanged now) =
     (if initialLoadComplete (sess r)
      then r\<lparr>sess := (sess r)\<lparr>pageChangeInProgress := True, timerStart := now\<rparr>\<rparr>
      else r)"
| "step h st emb rep r (Saved saveAs newReportId newReportName) =
     (if saveAs
      then r\<lparr>pend := pend r @ [SavedToken newReportId newReportName],
             calls := calls r @ refreshEmbedToken\<rparr>
      else r\<lparr>calls := calls r @ (case logEditReportActivity h rep of
                                    Inl e \<Rightarrow> [] | Inr a \<Rightarrow> a)\<rparr>)"
| "step h st emb rep r (Error event) =
     r\<lparr>calls := calls r @ error_handler ExistingError event\<rparr>"
| "step h st emb rep r (Resolved i now v) =
     (if i < length (pend r) then resume h st emb rep i now (pend r ! i) v r else r)"
| "step h st emb rep r (Rejected i) =
     (if i < length (pend r) then r\<lparr>pend := (pend r)[i := Finished]\<rparr> else r)"

definition run_events ::
  "hooks \<Rightarrow> ReportState \<Rightarrow> embed_ref \<Rightarrow> PowerBiReport \<Rightarrow> run \<Rightarrow> sdk_event list \<Rightarrow> run" where
  "run_events h st emb rep r evs = foldl (step h st emb rep) r evs"

text \<open>The entries sent to \<open>LogActivity\<close> with a given \<open>Activity\<close>, in order.\<close>

fun logged :: "string \<Rightarrow> action list \<Rightarrow> ActivityLogEntry list" where
  "logged a [] = []"
| "logged a (LogActivity e # as) = (if Activity e = Some a then e # logged a as else logged a as)"
| "logged a (_ # as) = logged a as"

text \<open>
  The \<open>saved\<close> handler of a new report (lines 272 to 280): the request for a token, then,
  with the token, the rest; here \<open>refreshEmbeddingData\<close> is not awaited.
\<close>

definition new_saved :: "action list" where
  "new_saved = refreshEmbedToken"

definition new_saved_resolved ::
  "hooks \<Rightarrow> ReportState \<Rightarrow> PowerBiDataset \<Rightarrow> int \<Rightarrow> EmbedTokenResult \<Rightarrow> string \<Rightarrow> string
   \<Rightarrow> action list" where
  "new_saved_resolved h st ds now tokenResult newReportId newReportName =
     refreshEmbedToken_resolved st now tokenResult
     @ [RefreshEmbeddingData]
     @ (case logCreateReportActivity h ds newReportId newReportName of
          Inl e \<Rightarrow> [] | Inr a \<Rightarrow> a)
     @ [Navigate (''/reports/'' @ newReportId @ ''/?edit=true&newReport=true'')]"

subsection \<open>The correlation id of a session\<close>

text \<open>
  The SDK's side of a session with correlation id \<open>cid\<close>: whenever a handler call awaits
  \<open>getCorrelationId\<close> and the promise resolves, it resolves with \<open>cid\<close>.
\<close>

fun answer_ok :: "string \<Rightarrow> run \<Rightarrow> sdk_event \<Rightarrow> bool" where
  "answer_ok cid r (Resolved i now (Text v)) =
     (i < length (pend r) \<and> (pend r ! i = ViewCorrelationId \<or> pend r ! i = PageCorrelationId)
        \<longrightarrow> v = cid)"
| "answer_ok cid r _ = True"

fun sdk_answers ::
  "string \<Rightarrow> hooks \<Rightarrow> ReportState \<Rightarrow> embed_ref \<Rightarrow> PowerBiReport \<Rightarrow> run \<Rightarrow> sdk_event list
   \<Rightarrow> bool" where
  "sdk_answers cid h st emb rep r [] = True"
| "sdk_answers cid h st emb rep r (ev # evs) =
     (answer_ok cid r ev \<and> sdk_answers cid h st emb rep (step h st emb rep r ev) evs)"

definition entry_ok :: "string \<Rightarrow> hooks \<Rightarrow> ActivityLogEntry \<Rightarrow> bool" where
  "entry_ok cid h e =
     ((Activity e = Some ''ViewReport'' \<or> Activity e = Some ''PageChanged''
         \<longrightarrow> CorrelationId e = Some cid)
      \<and> (Activity e = Some ''EditReport'' \<longrightarrow> CorrelationId e = Some [])
      \<and> (Activity e = Some ''CopyReport''
           \<longrightarrow> CorrelationId e = CorrelationId (new_ActivityLogEntry h)))"

definition run_inv :: "string \<Rightarrow> hooks \<Rightarrow> run \<Rightarrow> bool" where
  "run_inv cid h r =
     ((\<forall>e. LogActivity e \<in> set (calls r) \<longrightarrow> entry_ok cid h e)
      \<and> (\<forall>i < length (pend r). \<forall>c.
            pend r ! i = ViewActivePage c \<or> pend r ! i = PageActivePage c \<longrightarrow> c = cid))"

subsection \<open>Phases of a session\<close>

text \<open>
  A handler call that is inside lines 138 to 145, and one whose ViewReport entry has been
  sent (it waits on line 143 or is beyond line 145).
\<close>

fun in_view_block :: "pending \<Rightarrow> bool" where
  "in_view_block ViewCorrelationId = True"
| "in_view_block (ViewActivePage c) = True"
| "in_view_block ViewLogged = True"
| "in_view_block _ = False"

fun view_logged_by :: "pending \<Rightarrow> bool" where
  "view_logged_by ViewLogged = True"
| "view_logged_by PageCorrelationId = True"
| "view_logged_by (PageActivePage c) = True"
| "view_logged_by PageLogged = True"
| "view_logged_by _ = False"

definition initial_load_over :: "run \<Rightarrow> bool" where
  "initial_load_over r =
     (initialLoadComplete (sess r) \<and> list_all (\<lambda>p. \<not> in_view_block p) (pend r))"

definition view_logged_first :: "run \<Rightarrow> bool" where
  "view_logged_first r =
     (logged ''ViewReport'' (calls r) \<noteq> []
      \<or> (\<not> initialLoadComplete (sess r) \<and> \<not> pageChangeInProgress (sess r)
          \<and> list_all (\<lambda>p. \<not> view_logged_by p) (pend r)
          \<and> logged ''PageChanged'' (calls r) = []))"

text \<open>
  A handler call that is inside lines 146 to 153, a session in which no page change is
  under way, and the \<open>pageChanged\<close> events.
\<close>

fun in_page_block :: "pending \<Rightarrow> bool" where
  "in_page_block PageCorrelationId = True"
| "in_page_block (PageActivePage c) = True"
| "in_page_block PageLogged = True"
| "in_page_block _ = False"

definition no_page_change :: "run \<Rightarrow> bool" where
  "no_page_change r =
     (\<not> pageChangeInProgress (sess r) \<and> list_all (\<lambda>p. \<not> in_page_block p) (pend r)
      \<and> logged ''PageChanged'' (calls r) = [])"

fun is_PageChanged :: "sdk_event \<Rightarrow> bool" where
  "is_PageChanged (PageChanged now) = True"
| "is_PageChanged _ = False"

subsection \<open>Example values\<close>

definition ex_report :: PowerBiReport where
  "ex_report = \<lparr>r_id = ''r1'', r_name = Some ''Sales'', r_embedUrl = ''https://embed/r1'',
                r_reportType = ''PowerBIReport'', r_datasetId = ''d1''\<rparr>"

definition ex_paginated :: PowerBiReport where
  "ex_paginated = \<lparr>r_id = ''r2'', r_name = Some ''Invoices'', r_embedUrl = ''https://embed/r2'',
                   r_reportType = ''PaginatedReport'', r_datasetId = ''d1''\<rparr>"

definition ex_dataset :: PowerBiDataset where
  "ex_dataset = \<lparr>d_id = ''d1'', d_name = Some ''SalesData'',
                 d_createReportEmbedURL = ''https://embed/d1''\<rparr>"

definition ex_data :: EmbeddingData where
  "ex_data = \<lparr>tenantName = Some ''Contoso'', reports = Some [ex_report, ex_paginated],
              datasets = Some [ex_dataset], userCanEdit = False, userCanCreate = False,
              workspaceArtifactsLoading = False\<rparr>"

definition ex_entry :: ActivityLogEntry where
  "ex_entry = \<lparr>CorrelationId = None, Activity = None, LoginId = None, User = None,
               Tenant = None, Report = None, ReportId = None, ReportType = None,
               PageName = None, DatasetId = None, Dataset = None, OriginalReportId = None,
               LoadDuration = None, RenderDuration = None\<rparr>"

definition ex_hooks :: hooks where
  "ex_hooks = \<lparr>isAuthenticated = True,
               account = Some \<lparr>username = ''ann@contoso.com'', acc_name = Some ''Ann''\<rparr>,
               url_id = Some ''r1'', embeddingData = Some ex_data,
               embedContainer_current = True, location_search = [(''edit'', ''true'')],
               new_ActivityLogEntry = ex_entry\<rparr>"

definition ex_cfg :: ReportEmbedConfiguration where
  "ex_cfg = existing_config ex_hooks initial_state ex_report (Some ReadWrite)"

text \<open>A render in which a report (object 3) is embedded, and one with a new report (object 4).\<close>

definition ex_state_embedded :: ReportState where
  "ex_state_embedded = initial_state\<lparr>embedTokenAcquired := True, embeddedReport := Some 3\<rparr>"

text \<open>A first mount with the token acquired: nothing has been embedded yet.\<close>

definition ex_state_fresh :: ReportState where
  "ex_state_fresh =
     initial_state\<lparr>embedToken := Some ''tok1'', embedTokenExpiration := Some (Some 3600000),
                   embedTokenAcquired := True\<rparr>"

definition ex_state_new :: ReportState where
  "ex_state_new = initial_state\<lparr>embedTokenAcquired := True, embeddedNewReport := Some 4\<rparr>"


definition ex_token :: EmbedTokenResult where
  "ex_token = \<lparr>tr_embedToken = ''tok2'', tr_embedTokenExpiration = Some 3600000\<rparr>"


text \<open>
  A session of an embedded report without overlap: each handler call has finished before
  the next event arrives. The SDK answers \<open>getCorrelationId\<close> with \<open>c1\<close>.
\<close>

definition ex_trace :: "sdk_event list" where
  "ex_trace =
     [Loaded 50, Rendered 100, Resolved 0 110 (Text ''c1''), Resolved 0 120 (Text ''Page 1''),
      Resolved 0 300 Done, PageChanged 500, Rendered 600, Resolved 1 610 (Text ''c1''),
      Resolved 1 620 (Text ''Page 2''), Resolved 1 700 Done, Saved False [] []]"

definition ex_view_entry :: ActivityLogEntry where
  "ex_view_entry =
     \<lparr>CorrelationId = Some ''c1'', Activity = Some ''ViewReport'',
      LoginId = Some ''ann@contoso.com'', User = Some ''Ann'', Tenant = Some ''Contoso'',
      Report = Some ''Sales'', ReportId = Some ''r1'', ReportType = Some ''PowerBIReport'',
      PageName = Some ''Page 1'', DatasetId = Some ''d1'', Dataset = Some ''SalesData'',
      OriginalReportId = None, LoadDuration = Some 50, RenderDuration = Some 100\<rparr>"

text \<open>A session in which the report is saved under a new name, and the entries of the sessions.\<close>

definition ex_trace_save_as :: "sdk_event list" where
  "ex_trace_save_as =
     [Saved True ''r9'' ''Sales copy'', Resolved 0 800 (Token ex_token), Resolved 0 900 Done]"

definition ex_edit_entry :: ActivityLogEntry where
  "ex_edit_entry =
     \<lparr>CorrelationId = Some [], Activity = Some ''EditReport'',
      LoginId = Some ''ann@contoso.com'', User = Some ''Ann'', Tenant = Some ''Contoso'',
      Report = Some ''Sales'', ReportId = Some ''r1'', ReportType = Some ''PowerBIReport'',
      PageName = None, DatasetId = Some ''d1'', Dataset = Some ''SalesData'',
      OriginalReportId = None, LoadDuration = None, RenderDuration = None\<rparr>"

definition ex_copy_entry :: ActivityLogEntry where
  "ex_copy_entry =
     \<lparr>CorrelationId = None, Activity = Some ''CopyReport'',
      LoginId = Some ''ann@contoso.com'', User = Some ''Ann'', Tenant = Some ''Contoso'',
      Report = Some ''Sales copy'', ReportId = Some ''r9'', ReportType = Some ''PowerBIReport'',
      PageName = None, DatasetId = Some ''d1'', Dataset = Some ''SalesData'',
      OriginalReportId = Some ''r1'', LoadDuration = None, RenderDuration = None\<rparr>"

definition ex_paginated_entry :: ActivityLogEntry where
  "ex_paginated_entry =
     \<lparr>CorrelationId = Some [], Activity = Some ''ViewReport'',
      LoginId = Some ''ann@contoso.com'', User = Some ''Ann'', Tenant = Some ''Contoso'',
      Report = Some ''Invoices'', ReportId = Some ''r2'', ReportType = Some ''PaginatedReport'',
      PageName = Some [], DatasetId = Some ''d1'', Dataset = Some ''SalesData'',
      OriginalReportId = None, LoadDuration = None, RenderDuration = None\<rparr>"

section \<open>Properties\<close>

text \<open>
  C4. In \<open>embedExistingReport\<close>, with a non-null \<open>embeddingData\<close> whose \<open>userCanCreate\<close> is
  false, the configuration handed to the SDK has permissions \<open>ReadWrite\<close>, whatever
  \<open>userCanEdit\<close> is; and for no non-null \<open>embeddingData\<close> does the configuration carry
  \<open>Read\<close>.
\<close>

theorem C4_permissions_readwrite_without_create:
  assumes "embeddingData h = Some ed"
    and "PowerBiEmbedReport cfg \<in> set (fst (embedExistingReport h st emb rep))"
  shows "(\<not> userCanCreate ed \<longrightarrow> cfg_permissions cfg = Some ReadWrite)
         \<and> cfg_permissions cfg \<noteq> Some Read"
  using assms
  by (auto simp: embedExistingReport_def report_path_actions_def determine_permissions_def
      existing_config_def Let_def split: if_splits)

lemma embedExistingReport_ex:
  "fst (embedExistingReport ex_hooks initial_state 3 ex_report) =
     [SetEmbedType ExistingReport, SetReportType PowerBiReport, SetEditMode True,
      SetShowNavigation True, SetShowFiltersPane False, SetShowBookmarksPane False,
      SetViewMode FitToPage, SetReportPath ''Contoso > Sales'', PowerBiReset,
      PowerBiEmbedReport ex_cfg,
      SetEmbeddedReport (Some 3), SetEmbeddedNewReport None,
      Off 3 ''loaded'', On 3 ''loaded'' ExistingLoaded,
      Off 3 ''rendered'', On 3 ''rendered'' ExistingRendered,
      Off 3 ''pageChanged'', On 3 ''pageChanged'' ExistingPageChanged,
      Off 3 ''saved'', On 3 ''saved'' ExistingSaved,
      Off 3 ''error'', On 3 ''error'' ExistingError]"
  by (simp add: embedExistingReport_def report_path_actions_def determine_permissions_def
      openInEditMode_def params_get_def truthy_def js_str_def ex_cfg_def ex_hooks_def ex_data_def ex_report_def)

theorem C4_witness:
  "embeddingData ex_hooks = Some ex_data
   \<and> PowerBiEmbedReport ex_cfg \<in> set (fst (embedExistingReport ex_hooks initial_state 3 ex_report))
   \<and> \<not> userCanCreate ex_data \<and> \<not> userCanEdit ex_data
   \<and> cfg_permissions ex_cfg = Some ReadWrite \<and> cfg_permissions ex_cfg \<noteq> Some Read"
proof -
  have a: "embeddingData ex_hooks = Some ex_data" by (simp add: ex_hooks_def)
  have b: "PowerBiEmbedReport ex_cfg \<in> set (fst (embedExistingReport ex_hooks initial_state 3 ex_report))"
    by (simp add: embedExistingReport_ex)
  have c: "\<not> userCanCreate ex_data \<and> \<not> userCanEdit ex_data" by (simp add: ex_data_def)
  from C4_permissions_readwrite_without_create [OF a b] a b c show ?thesis by simp
qed



text \<open>
  C9. embedNewReport calls \<open>.off("saved")\<close> and \<open>.off("error")\<close> on the state value
  \<open>embeddedReport\<close>, not on the new embed. When no report is embedded in that render the
  value is null and the function throws; the \<open>saved\<close> and \<open>error\<close> handlers of the new report
  are registered only when a report was embedded before.
\<close>

theorem C9_new_report_handlers:
  "(embeddedReport st = None \<longrightarrow> snd (embedNewReport h st newemb ds) = Inl TypeError)
   \<and> (On e n f \<in> set (fst (embedNewReport h st newemb ds)) \<longrightarrow>
        embeddedReport st \<noteq> None \<and> e = newemb)
   \<and> (Off e n \<in> set (fst (embedNewReport h st newemb ds)) \<longrightarrow> embeddedReport st = Some e)
   \<and> (snd (embedNewReport h st newemb ds) = Inr () \<longrightarrow>
        (\<exists>old. embeddedReport st = Some old
           \<and> Off old ''saved'' \<in> set (fst (embedNewReport h st newemb ds))
           \<and> Off old ''error'' \<in> set (fst (embedNewReport h st newemb ds))
           \<and> On newemb ''saved'' NewSaved \<in> set (fst (embedNewReport h st newemb ds))
           \<and> On newemb ''error'' NewError \<in> set (fst (embedNewReport h st newemb ds))))"
  by (auto simp: embedNewReport_def report_path_actions_def Let_def
      split: if_splits option.splits sum.splits)

lemma embedNewReport_ex_new:
  "embedNewReport ex_hooks ex_state_new 5 ex_dataset =
     ([SetEmbedType NewReport, SetReportType PowerBiReport,
       SetReportPath ''Contoso > New Report [not saved]'',
       PowerBiCreateReport (new_report_config ex_state_new ex_dataset),
       SetEmbeddedNewReport (Some 5), SetEmbeddedReport None],
      Inl TypeError)"
  by (simp add: embedNewReport_def report_path_actions_def truthy_def js_str_def
      ex_hooks_def ex_data_def ex_dataset_def ex_state_new_def initial_state_def)

lemma embedNewReport_ex_embedded:
  "embedNewReport ex_hooks ex_state_embedded 5 ex_dataset =
     ([SetEmbedType NewReport, SetReportType PowerBiReport,
       SetReportPath ''Contoso > New Report [not saved]'',
       PowerBiCreateReport (new_report_config ex_state_embedded ex_dataset),
       SetEmbeddedNewReport (Some 5), SetEmbeddedReport None,
       Off 3 ''saved'', On 5 ''saved'' NewSaved, Off 3 ''error'', On 5 ''error'' NewError],
      Inr ())"
  by (simp add: embedNewReport_def report_path_actions_def truthy_def js_str_def
      ex_hooks_def ex_data_def ex_dataset_def ex_state_embedded_def initial_state_def)

theorem C9_witness:
  "embeddedReport ex_state_new = None
   \<and> snd (embedNewReport ex_hooks ex_state_new 5 ex_dataset) = Inl TypeError
   \<and> On 5 ''saved'' NewSaved \<notin> set (fst (embedNewReport ex_hooks ex_state_new 5 ex_dataset))
   \<and> On 5 ''error'' NewError \<notin> set (fst (embedNewReport ex_hooks ex_state_new 5 ex_dataset))
   \<and> snd (embedNewReport ex_hooks ex_state_embedded 5 ex_dataset) = Inr ()
   \<and> embeddedReport ex_state_embedded = Some 3
   \<and> Off 3 ''saved'' \<in> set (fst (embedNewReport ex_hooks ex_state_embedded 5 ex_dataset))
   \<and> On 5 ''saved'' NewSaved \<in> set (fst (embedNewReport ex_hooks ex_state_embedded 5 ex_dataset))
   \<and> On 5 ''error'' NewError \<in> set (fst (embedNewReport ex_hooks ex_state_embedded 5 ex_dataset))"
proof -
  have a: "embeddedReport ex_state_new = None"
    by (simp add: ex_state_new_def initial_state_def)
  have b: "snd (embedNewReport ex_hooks ex_state_embedded 5 ex_dataset) = Inr ()"
    by (simp add: embedNewReport_ex_embedded)
  have c: "embeddedReport ex_state_embedded = Some 3"
    by (simp add: ex_state_embedded_def initial_state_def)
  note n = C9_new_report_handlers [of ex_state_new ex_hooks 5 ex_dataset 5 "''saved''" NewSaved]
  note m = C9_new_report_handlers [of ex_state_new ex_hooks 5 ex_dataset 5 "''error''" NewError]
  note e = C9_new_report_handlers [of ex_state_embedded ex_hooks 5 ex_dataset 3 "''saved''" NewSaved]
  from n m e a b c show ?thesis by auto
qed

lemma handlers_for_append: "handlers_for n (xs @ ys) = handlers_for n xs @ handlers_for n ys"
  by (induction n xs rule: handlers_for.induct) simp_all

lemma handlers_for_path:
  "report_path_actions h nm sfx = Inr a \<Longrightarrow> handlers_for n a = []"
  by (auto simp: report_path_actions_def split: if_splits option.splits)

lemma handlers_for_logView:
  "logViewReportActivity h c rep p l d = Inr a \<Longrightarrow> handlers_for n a = []"
  by (auto simp: logViewReportActivity_def split: option.splits)

lemma error_handlers_existing:
  "handlers_for ''error'' (fst (embedExistingReport h st emb rep)) =
     (if snd (embedExistingReport h st emb rep) = Inr () then [ExistingError] else [])"
  by (auto simp: embedExistingReport_def handlers_for_append handlers_for_path Let_def
      split: sum.splits)

lemma error_handlers_paginated:
  "handlers_for ''error'' (fst (embedPaginatedReport h st emb rep)) = []
   \<and> handlers_for ''error'' (embedPaginatedReport_logged emb) = [PaginatedError]"
  by (auto simp: embedPaginatedReport_def embedPaginatedReport_logged_def handlers_for_append
      handlers_for_path handlers_for_logView Let_def split: sum.splits)

lemma error_handlers_new:
  "handlers_for ''error'' (fst (embedNewReport h st emb ds)) =
     (if snd (embedNewReport h st emb ds) = Inr () then [NewError] else [])"
  by (auto simp: embedNewReport_def handlers_for_append handlers_for_path Let_def
      split: sum.splits option.splits)

text \<open>
  The only handler an embedding function registers for \<open>error\<close> is its error handler:
  embedExistingReport and embedNewReport when they run to their end, embedPaginatedReport
  in its second segment. The handler writes one line to the console and calls no state
  setter: the component state after the handler is the state before it, and in an
  embedded report's session the shared variables and the pending handler calls are
  unchanged too.
\<close>

lemma error_handlers_only_log:
  "handlers_for ''error'' (fst (embedExistingReport h st emb rep)) =
     (if snd (embedExistingReport h st emb rep) = Inr () then [ExistingError] else [])
   \<and> handlers_for ''error'' (fst (embedPaginatedReport h st emb rep)) = []
   \<and> handlers_for ''error'' (embedPaginatedReport_logged emb) = [PaginatedError]
   \<and> handlers_for ''error'' (fst (embedNewReport h st emb ds)) =
       (if snd (embedNewReport h st emb ds) = Inr () then [NewError] else [])
   \<and> error_handler ExistingError event = [ConsoleLog ''ERROR in embedded report'' event]
   \<and> error_handler PaginatedError event = [ConsoleLog ''ERROR in paginated report'' event]
   \<and> error_handler NewError event = [ConsoleLog ''ERROR in embedded report'' event]
   \<and> apply_actions (error_handler ExistingError event) s = s
   \<and> apply_actions (error_handler PaginatedError event) s = s
   \<and> apply_actions (error_handler NewError event) s = s
   \<and> sess (step h st emb rep r (Error event)) = sess r
   \<and> pend (step h st emb rep r (Error event)) = pend r
   \<and> calls (step h st emb rep r (Error event)) =
       calls r @ [ConsoleLog ''ERROR in embedded report'' event]"
  using error_handlers_existing [of h st emb rep] error_handlers_paginated [of h st emb rep]
    error_handlers_new [of h st emb ds]
  by (simp add: apply_actions_def)

text \<open>
  C5 asks that in each of the three embedding modes an error of the SDK is handled by an
  \<open>error\<close> handler that writes to the console. embedNewReport registers that handler on
  line 283, after the \<open>.off\<close> calls on the state value \<open>embeddedReport\<close> (lines 271 and 282).
  On a first mount whose URL names a dataset nothing has been embedded, the value is null,
  line 271 throws, and the new report, already created, has no \<open>error\<close> handler.
\<close>

theorem C5_new_report_without_error_handler:
  "embeddedReport ex_state_fresh = None
   \<and> embed_effect (ex_hooks\<lparr>url_id := Some ''d1''\<rparr>) ex_state_fresh =
       Inr (CallEmbedNewReport ex_dataset)
   \<and> embedNewReport (ex_hooks\<lparr>url_id := Some ''d1''\<rparr>) ex_state_fresh 5 ex_dataset =
       ([SetEmbedType NewReport, SetReportType PowerBiReport,
         SetReportPath ''Contoso > New Report [not saved]'',
         PowerBiCreateReport (new_report_config ex_state_fresh ex_dataset),
         SetEmbeddedNewReport (Some 5), SetEmbeddedReport None],
        Inl TypeError)
   \<and> handlers_for ''error''
        (fst (embedNewReport (ex_hooks\<lparr>url_id := Some ''d1''\<rparr>) ex_state_fresh 5 ex_dataset)) = []"
  by (simp add: embed_effect_def find_by_id_def embedNewReport_def report_path_actions_def
      truthy_def js_str_def ex_hooks_def ex_data_def ex_dataset_def ex_report_def
      ex_paginated_def ex_state_fresh_def initial_state_def)

text \<open>
  C8. A render of an unauthenticated user returns the PageNotAccessible page, and its
  effects make no call at all, so no embedding call and no logging call; a render of an
  authenticated user whose workspace artifacts are loading returns the DataLoading page.
\<close>

theorem C8_placeholder_pages:
  "(\<not> isAuthenticated h \<longrightarrow>
      render h st = Inr PageNotAccessible \<and> embed_effect h st = Inr NoCall
      \<and> effects_of_render h st emb = [])
   \<and> (isAuthenticated h \<and> embeddingData h = Some ed \<and> workspaceArtifactsLoading ed \<longrightarrow>
        render h st = Inr DataLoading)"
  by (simp add: render_def embed_effect_def effects_of_render_def token_timer_effect_def)

theorem C8_witness:
  "\<not> isAuthenticated (ex_hooks\<lparr>isAuthenticated := False\<rparr>)
   \<and> render (ex_hooks\<lparr>isAuthenticated := False\<rparr>) ex_state_embedded = Inr PageNotAccessible
   \<and> effects_of_render (ex_hooks\<lparr>isAuthenticated := False\<rparr>) ex_state_embedded 5 = []
   \<and> isAuthenticated ex_hooks
   \<and> workspaceArtifactsLoading (ex_data\<lparr>workspaceArtifactsLoading := True\<rparr>)
   \<and> render (ex_hooks\<lparr>embeddingData := Some (ex_data\<lparr>workspaceArtifactsLoading := True\<rparr>)\<rparr>)
        initial_state = Inr DataLoading"
  using C8_placeholder_pages [of "ex_hooks\<lparr>isAuthenticated := False\<rparr>" ex_state_embedded 5
      "ex_data\<lparr>workspaceArtifactsLoading := True\<rparr>"]
    C8_placeholder_pages [of "ex_hooks\<lparr>embeddingData := Some (ex_data\<lparr>workspaceArtifactsLoading := True\<rparr>)\<rparr>"
      initial_state 5 "ex_data\<lparr>workspaceArtifactsLoading := True\<rparr>"]
  by (simp add: ex_hooks_def)





subsection \<open>Token monitoring\<close>

















subsection \<open>Activity logging in a session of an embedded report\<close>

lemma logView_entry:
  "logViewReportActivity h c rep p l d = Inr a \<Longrightarrow> LogActivity e \<in> set a \<Longrightarrow>
     Activity e = Some ''ViewReport'' \<and> CorrelationId e = Some c"
  by (auto simp: logViewReportActivity_def split: option.splits)

lemma logPage_entry:
  "logPageChangedActivity h c rep p d = Inr a \<Longrightarrow> LogActivity e \<in> set a \<Longrightarrow>
     Activity e = Some ''PageChanged'' \<and> CorrelationId e = Some c"
  by (auto simp: logPageChangedActivity_def split: option.splits)

lemma logEdit_entry:
  "logEditReportActivity h rep = Inr a \<Longrightarrow> LogActivity e \<in> set a \<Longrightarrow>
     Activity e = Some ''EditReport'' \<and> CorrelationId e = Some []"
  by (auto simp: logEditReportActivity_def split: option.splits sum.splits)

lemma logCopy_entry:
  "logCopyReportActivity h rep i n = Inr a \<Longrightarrow> LogActivity e \<in> set a \<Longrightarrow>
     Activity e = Some ''CopyReport'' \<and> CorrelationId e = CorrelationId (new_ActivityLogEntry h)"
  by (auto simp: logCopyReportActivity_def split: option.splits sum.splits)

lemma refresh_resolved_no_log:
  "LogActivity e \<notin> set (refreshEmbedToken_resolved st now tr)"
  by (auto simp: refreshEmbedToken_resolved_def monitorTokenExpiration_def refreshEmbedToken_def
      Let_def split: option.splits)

lemma run_inv_pend_update:
  assumes "run_inv cid h r" and "\<forall>c. p = ViewActivePage c \<or> p = PageActivePage c \<longrightarrow> c = cid"
  shows "run_inv cid h (r\<lparr>pend := (pend r)[i := p]\<rparr>)"
  using assms
  by (cases "i < length (pend r)") (auto simp: run_inv_def nth_list_update split: if_splits)

lemma run_inv_calls:
  assumes "run_inv cid h r" and "\<forall>e. LogActivity e \<in> set a \<longrightarrow> entry_ok cid h e"
  shows "run_inv cid h (r\<lparr>calls := calls r @ a\<rparr>)"
  using assms by (auto simp: run_inv_def)

lemma run_inv_sess: "run_inv cid h (r\<lparr>sess := s\<rparr>) = run_inv cid h r"
  by (simp add: run_inv_def)

lemma run_inv_pend_append:
  assumes "run_inv cid h r" and "\<forall>c. p = ViewActivePage c \<or> p = PageActivePage c \<longrightarrow> c = cid"
  shows "run_inv cid h (r\<lparr>pend := pend r @ [p]\<rparr>)"
  using assms by (auto simp: run_inv_def nth_append less_Suc_eq)

lemma run_inv_intro:
  assumes "run_inv cid h r"
    and "length (pend r') = length (pend r)"
    and "\<And>j. j < length (pend r) \<Longrightarrow> pend r' ! j = pend r ! j \<or> pend r' ! j = p"
    and "\<And>c. p = ViewActivePage c \<or> p = PageActivePage c \<Longrightarrow> c = cid"
    and "calls r' = calls r @ a"
    and "\<And>e. LogActivity e \<in> set a \<Longrightarrow> entry_ok cid h e"
  shows "run_inv cid h r'"
  unfolding run_inv_def
proof (intro conjI allI impI)
  fix e assume "LogActivity e \<in> set (calls r')"
  with assms(1,5,6) show "entry_ok cid h e" by (auto simp: run_inv_def)
next
  fix i c assume i: "i < length (pend r')"
    and c: "pend r' ! i = ViewActivePage c \<or> pend r' ! i = PageActivePage c"
  from i assms(2) have i': "i < length (pend r)" by simp
  from assms(3) [OF i'] show "c = cid"
  proof
    assume "pend r' ! i = pend r ! i"
    with c i' assms(1) show ?thesis by (auto simp: run_inv_def)
  next
    assume "pend r' ! i = p"
    with c assms(4) [of c] show ?thesis by auto
  qed
qed

lemma upd_same_or: "j < length xs \<Longrightarrow> xs[i := p] ! j = xs ! j \<or> xs[i := p] ! j = p"
  by (cases "i = j") auto

lemma page_changed_block_inv:
  assumes "run_inv cid h r"
  shows "run_inv cid h (page_changed_block emb i now r)"
proof (cases "pageChangeInProgress (sess r)")
  case True
  show ?thesis
    by (rule run_inv_intro [OF assms, where p = PageCorrelationId and a = "[GetCorrelationId emb]"])
      (simp_all add: page_changed_block_def True upd_same_or)
next
  case False
  show ?thesis
    by (rule run_inv_intro [OF assms, where p = Finished and a = "[]"])
      (simp_all add: page_changed_block_def False upd_same_or)
qed

lemma view_block_log_inv:
  assumes "run_inv cid h r"
  shows "run_inv cid h (view_block_log h rep i cid p r)"
proof (cases "logViewReportActivity h cid rep p (loadDuration (sess r)) (renderDuration (sess r))")
  case (Inl e)
  show ?thesis
    by (rule run_inv_intro [OF assms, where p = Finished and a = "[]"])
      (simp_all add: view_block_log_def Inl upd_same_or)
next
  case (Inr a)
  show ?thesis
    by (rule run_inv_intro [OF assms, where p = ViewLogged and a = a])
      (auto simp: view_block_log_def Inr upd_same_or entry_ok_def dest: logView_entry [OF Inr])
qed

lemma resume_inv:
  assumes inv: "run_inv cid h r" and i: "i < length (pend r)" and p: "pend r ! i = p"
    and ans: "answer_ok cid r (Resolved i now v)"
  shows "run_inv cid h (resume h st emb rep i now p v r)"
proof (cases v)
  case (Text x)
  show ?thesis
  proof (cases p)
    case ViewCorrelationId
    with ans i p Text have x: "x = cid" by simp
    show ?thesis
    proof (cases "r_reportType rep = ''PowerBIReport''")
      case True
      show ?thesis
        by (rule run_inv_intro [OF inv, where p = "ViewActivePage cid" and a = "[GetActivePage emb]"])
          (simp_all add: Text ViewCorrelationId x True upd_same_or)
    next
      case False
      with view_block_log_inv [OF inv] show ?thesis
        by (simp add: Text ViewCorrelationId x)
    qed
  next
    case (ViewActivePage c)
    with inv i p have "c = cid" by (auto simp: run_inv_def)
    with view_block_log_inv [OF inv] show ?thesis
      by (simp add: Text ViewActivePage)
  next
    case PageCorrelationId
    with ans i p Text have x: "x = cid" by simp
    show ?thesis
      by (rule run_inv_intro [OF inv, where p = "PageActivePage cid" and a = "[GetActivePage emb]"])
        (simp_all add: Text PageCorrelationId x upd_same_or)
  next
    case (PageActivePage c)
    with inv i p have c: "c = cid" by (auto simp: run_inv_def)
    show ?thesis
    proof (cases "logPageChangedActivity h cid rep x (renderDuration (sess r))")
      case (Inl e)
      show ?thesis
        by (rule run_inv_intro [OF inv, where p = Finished and a = "[]"])
          (simp_all add: Text PageActivePage c Inl upd_same_or)
    next
      case (Inr a)
      show ?thesis
        by (rule run_inv_intro [OF inv, where p = PageLogged and a = a])
          (auto simp: Text PageActivePage c Inr upd_same_or entry_ok_def
            dest: logPage_entry [OF Inr])
    qed
  qed (simp_all add: Text inv)
next
  case (Token tr)
  show ?thesis
  proof (cases p)
    case (SavedToken a b)
    show ?thesis
      by (rule run_inv_intro [OF inv, where p = "SavedData a b"
            and a = "refreshEmbedToken_resolved st now tr @ [RefreshEmbeddingData]"])
        (simp_all add: Token SavedToken upd_same_or refresh_resolved_no_log)
  qed (simp_all add: Token inv)
next
  case Done
  show ?thesis
  proof (cases p)
    case ViewLogged
    have "run_inv cid h (r\<lparr>sess := (sess r)\<lparr>initialLoadComplete := True\<rparr>\<rparr>)"
      using inv by (simp add: run_inv_sess)
    from page_changed_block_inv [OF this] show ?thesis
      by (simp add: Done ViewLogged)
  next
    case PageLogged
    show ?thesis
      by (rule run_inv_intro [OF inv, where p = Finished and a = "[]"])
        (simp_all add: Done PageLogged upd_same_or)
  next
    case (SavedData a b)
    show ?thesis
    proof (cases "logCopyReportActivity h rep a b")
      case (Inl e)
      show ?thesis
        by (rule run_inv_intro [OF inv, where p = Finished
              and a = "[Navigate (''/reports/'' @ a @ ''/?edit=true'')]"])
          (simp_all add: Done SavedData Inl upd_same_or)
    next
      case (Inr acts)
      show ?thesis
        by (rule run_inv_intro [OF inv, where p = Finished
              and a = "acts @ [Navigate (''/reports/'' @ a @ ''/?edit=true'')]"])
          (auto simp: Done SavedData Inr upd_same_or entry_ok_def dest: logCopy_entry [OF Inr])
    qed
  qed (simp_all add: Done inv)
qed

lemma step_inv:
  assumes inv: "run_inv cid h r" and ans: "answer_ok cid r ev"
  shows "run_inv cid h (step h st emb rep r ev)"
proof (cases ev)
  case (Loaded now)
  with inv show ?thesis by (simp add: run_inv_sess)
next
  case (Rendered now)
  have r1: "run_inv cid h (r\<lparr>pend := pend r @ [Finished]\<rparr>)"
    using inv by (simp add: run_inv_pend_append)
  show ?thesis
  proof (cases "initialLoadComplete (sess r)")
    case True
    with page_changed_block_inv [OF r1] show ?thesis by (simp add: Rendered Let_def)
  next
    case False
    show ?thesis
      by (rule run_inv_intro [OF r1, where p = ViewCorrelationId and a = "[GetCorrelationId emb]"])
        (auto simp add: Rendered False Let_def nth_append)
  qed
next
  case (PageChanged now)
  with inv show ?thesis by (simp add: run_inv_sess)
next
  case (Saved saveAs a b)
  show ?thesis
  proof (cases saveAs)
    case True
    have "run_inv cid h (r\<lparr>pend := pend r @ [SavedToken a b]\<rparr>)"
      using inv by (simp add: run_inv_pend_append)
    then have "run_inv cid h (r\<lparr>pend := pend r @ [SavedToken a b]\<rparr>
                 \<lparr>calls := calls (r\<lparr>pend := pend r @ [SavedToken a b]\<rparr>) @ refreshEmbedToken\<rparr>)"
      by (rule run_inv_calls) (simp add: refreshEmbedToken_def)
    then show ?thesis by (simp add: Saved True)
  next
    case False
    have "\<forall>e. LogActivity e \<in> set (case logEditReportActivity h rep of
                                    Inl e \<Rightarrow> [] | Inr a \<Rightarrow> a) \<longrightarrow> entry_ok cid h e"
    proof (cases "logEditReportActivity h rep")
      case (Inl e)
      then show ?thesis by simp
    next
      case (Inr acts)
      then show ?thesis by (auto simp: entry_ok_def dest: logEdit_entry [OF Inr])
    qed
    with inv have "run_inv cid h (r\<lparr>calls := calls r @ (case logEditReportActivity h rep of
                                    Inl e \<Rightarrow> [] | Inr a \<Rightarrow> a)\<rparr>)"
      by (rule run_inv_calls)
    then show ?thesis by (simp add: Saved False)
  qed
next
  case (Error event)
  have "run_inv cid h (r\<lparr>calls := calls r @ error_handler ExistingError event\<rparr>)"
    using inv by (rule run_inv_calls) simp
  then show ?thesis by (simp add: Error)
next
  case (Resolved i now v)
  show ?thesis
  proof (cases "i < length (pend r)")
    case True
    from resume_inv [OF inv True refl] ans show ?thesis by (simp add: Resolved True)
  next
    case False
    with inv show ?thesis by (simp add: Resolved)
  qed
next
  case (Rejected i)
  show ?thesis
  proof (cases "i < length (pend r)")
    case True
    have "run_inv cid h (r\<lparr>pend := (pend r)[i := Finished]\<rparr>)"
      using inv by (rule run_inv_pend_update) simp
    then show ?thesis by (simp add: Rejected True)
  next
    case False
    with inv show ?thesis by (simp add: Rejected)
  qed
qed

lemma run_events_inv:
  "run_inv cid h r \<Longrightarrow> sdk_answers cid h st emb rep r evs \<Longrightarrow>
     run_inv cid h (run_events h st emb rep r evs)"
proof (induction evs arbitrary: r)
  case Nil
  then show ?case by (simp add: run_events_def)
next
  case (Cons ev evs)
  from Cons.prems have "run_inv cid h (step h st emb rep r ev)"
    and "sdk_answers cid h st emb rep (step h st emb rep r ev) evs"
    by (simp_all add: step_inv)
  from Cons.IH [OF this] show ?case by (simp add: run_events_def)
qed

lemma start_run_inv: "run_inv cid h (start_run now)"
  by (simp add: run_inv_def start_run_def)

lemma paginated_entry:
  "LogActivity e \<in> set (fst (embedPaginatedReport h st emb rep)) \<Longrightarrow>
     Activity e = Some ''ViewReport'' \<and> CorrelationId e = Some []"
  by (auto simp: embedPaginatedReport_def report_path_actions_def Let_def
      split: sum.splits if_splits option.splits dest: logView_entry)

lemmas eval_defs = run_events_def start_run_def start_session_def
  page_changed_block_def view_block_log_def logViewReportActivity_def logPageChangedActivity_def
  logEditReportActivity_def find_dataset_name_def find_dataset_name_opt_def
  ex_hooks_def ex_data_def ex_report_def ex_dataset_def ex_entry_def Let_def

text \<open>
  C6, as the code has it. In a session of an embedded Power BI report whose
  \<open>getCorrelationId\<close> resolves with \<open>cid\<close>, every ViewReport and PageChanged entry sent to
  LogActivity carries \<open>cid\<close>; every EditReport entry carries the empty string; a CopyReport
  entry has the CorrelationId the ActivityLogEntry constructor left. The ViewReport entry
  of a paginated report carries the empty string.
\<close>

theorem C6_correlation_ids:
  assumes "sdk_answers cid h st emb rep (start_run t0) evs"
    and "LogActivity e \<in> set (calls (run_events h st emb rep (start_run t0) evs))"
  shows "(Activity e = Some ''ViewReport'' \<or> Activity e = Some ''PageChanged''
            \<longrightarrow> CorrelationId e = Some cid)
         \<and> (Activity e = Some ''EditReport'' \<longrightarrow> CorrelationId e = Some [])
         \<and> (Activity e = Some ''CopyReport''
              \<longrightarrow> CorrelationId e = CorrelationId (new_ActivityLogEntry h))
         \<and> (LogActivity e' \<in> set (fst (embedPaginatedReport h' st' emb' rep')) \<longrightarrow>
              Activity e' = Some ''ViewReport'' \<and> CorrelationId e' = Some [])"
proof -
  have "run_inv cid h (run_events h st emb rep (start_run t0) evs)"
    using start_run_inv assms(1) by (rule run_events_inv)
  with assms(2) have "entry_ok cid h e" by (simp add: run_inv_def)
  then show ?thesis using paginated_entry [of e' h' st' emb' rep'] by (simp add: entry_ok_def)
qed

lemma ex_trace_view_entry:
  "LogActivity ex_view_entry
     \<in> set (calls (run_events ex_hooks ex_state_embedded 3 ex_report (start_run 0) ex_trace))"
  by (simp add: ex_trace_def ex_view_entry_def eval_defs)

lemma ex_trace_edit_entry:
  "LogActivity ex_edit_entry
     \<in> set (calls (run_events ex_hooks ex_state_embedded 3 ex_report (start_run 0) ex_trace))"
  by (simp add: ex_trace_def ex_edit_entry_def eval_defs)

lemma ex_trace_copy_entry:
  "sdk_answers ''c1'' ex_hooks ex_state_embedded 3 ex_report (start_run 0) ex_trace_save_as
   \<and> LogActivity ex_copy_entry
     \<in> set (calls (run_events ex_hooks ex_state_embedded 3 ex_report (start_run 0)
          ex_trace_save_as))"
  by (simp add: ex_trace_save_as_def ex_copy_entry_def eval_defs logCopyReportActivity_def
      refreshEmbedToken_def)

lemma ex_paginated_entry_logged:
  "LogActivity ex_paginated_entry
     \<in> set (fst (embedPaginatedReport ex_hooks ex_state_embedded 3 ex_paginated))"
  by (simp add: embedPaginatedReport_def report_path_actions_def truthy_def
      logViewReportActivity_def find_dataset_name_opt_def ex_paginated_entry_def
      ex_hooks_def ex_data_def ex_paginated_def ex_dataset_def ex_entry_def)

theorem C6_witness:
  "sdk_answers ''c1'' ex_hooks ex_state_embedded 3 ex_report (start_run 0) ex_trace
   \<and> LogActivity ex_view_entry
       \<in> set (calls (run_events ex_hooks ex_state_embedded 3 ex_report (start_run 0) ex_trace))
   \<and> Activity ex_view_entry = Some ''ViewReport''
   \<and> CorrelationId ex_view_entry = Some ''c1''
   \<and> LogActivity ex_edit_entry
       \<in> set (calls (run_events ex_hooks ex_state_embedded 3 ex_report (start_run 0) ex_trace))
   \<and> Activity ex_edit_entry = Some ''EditReport''
   \<and> CorrelationId ex_edit_entry = Some []
   \<and> sdk_answers ''c1'' ex_hooks ex_state_embedded 3 ex_report (start_run 0) ex_trace_save_as
   \<and> LogActivity ex_copy_entry
       \<in> set (calls (run_events ex_hooks ex_state_embedded 3 ex_report (start_run 0)
            ex_trace_save_as))
   \<and> Activity ex_copy_entry = Some ''CopyReport''
   \<and> CorrelationId ex_copy_entry = CorrelationId (new_ActivityLogEntry ex_hooks)
   \<and> LogActivity ex_paginated_entry
       \<in> set (fst (embedPaginatedReport ex_hooks ex_state_embedded 3 ex_paginated))
   \<and> CorrelationId ex_paginated_entry = Some []"
proof -
  have a: "sdk_answers ''c1'' ex_hooks ex_state_embedded 3 ex_report (start_run 0) ex_trace"
    by (simp add: ex_trace_def eval_defs)
  have v: "Activity ex_view_entry = Some ''ViewReport''" by (simp add: ex_view_entry_def)
  have e: "Activity ex_edit_entry = Some ''EditReport''" by (simp add: ex_edit_entry_def)
  have c: "Activity ex_copy_entry = Some ''CopyReport''" by (simp add: ex_copy_entry_def)
  note s = ex_trace_copy_entry
  note w1 = C6_correlation_ids [OF a ex_trace_view_entry,
      of ex_paginated_entry ex_hooks ex_state_embedded 3 ex_paginated]
  note w2 = C6_correlation_ids [OF a ex_trace_edit_entry,
      of ex_paginated_entry ex_hooks ex_state_embedded 3 ex_paginated]
  note w3 = C6_correlation_ids [OF conjunct1 [OF s] conjunct2 [OF s],
      of ex_paginated_entry ex_hooks ex_state_embedded 3 ex_paginated]
  from w1 w2 w3 a v e c s ex_trace_view_entry ex_trace_edit_entry ex_paginated_entry_logged
  show ?thesis by simp
qed

text \<open>
  The claim C6 as stated, "for every logged activity the CorrelationId equals the identifier
  obtained from getCorrelationId", fails for EditReport: in a session whose correlation
  id is \<open>c1\<close>, saving the report logs an EditReport entry with the empty string. It fails
  for a paginated report too, whose ViewReport entry carries the empty string.
\<close>

theorem C6_counterexample:
  "sdk_answers ''c1'' ex_hooks ex_state_embedded 3 ex_report (start_run 0) ex_trace
   \<and> map CorrelationId (logged ''ViewReport''
        (calls (run_events ex_hooks ex_state_embedded 3 ex_report (start_run 0) ex_trace)))
      = [Some ''c1'']
   \<and> map CorrelationId (logged ''EditReport''
        (calls (run_events ex_hooks ex_state_embedded 3 ex_report (start_run 0) ex_trace)))
      = [Some []]
   \<and> map CorrelationId (logged ''EditReport''
        (calls (run_events ex_hooks ex_state_embedded 3 ex_report (start_run 0) ex_trace)))
      \<noteq> [Some ''c1'']
   \<and> map CorrelationId (logged ''ViewReport''
        (fst (embedPaginatedReport ex_hooks ex_state_embedded 3 ex_paginated)))
      = [Some []]"
  by (simp add: ex_trace_def eval_defs embedPaginatedReport_def report_path_actions_def
      truthy_def ex_paginated_def)

text \<open>
  C3 asks that a ViewReport entry is logged exactly once for an embedding. The \<open>rendered\<close>
  handler tests \<open>initialLoadComplete\<close> before its awaits and sets it after them (lines 138
  to 144), while \<open>pageChangeInProgress\<close> is cleared before the awaits (line 147). When a
  second \<open>rendered\<close> event arrives while the first handler call still waits, both calls find
  \<open>initialLoadComplete\<close> false and both log ViewReport.
\<close>

theorem C3_overlapping_rendered_logs_twice:
  "map Activity (logged ''ViewReport''
     (calls (run_events ex_hooks ex_state_embedded 3 ex_report (start_run 0)
        [Rendered 100, Rendered 200,
         Resolved 0 210 (Text ''c1''), Resolved 1 220 (Text ''c1''),
         Resolved 0 230 (Text ''Page 1''), Resolved 1 240 (Text ''Page 1'')])))
   = [Some ''ViewReport'', Some ''ViewReport'']"
  by (simp add: eval_defs)

text \<open>
  Without overlap the same code logs ViewReport once, and PageChanged once for the page
  change that follows.
\<close>

lemma sequential_session_logs_once:
  "map Activity (logged ''ViewReport''
     (calls (run_events ex_hooks ex_state_embedded 3 ex_report (start_run 0) ex_trace)))
   = [Some ''ViewReport'']
   \<and> map Activity (logged ''PageChanged''
     (calls (run_events ex_hooks ex_state_embedded 3 ex_report (start_run 0) ex_trace)))
   = [Some ''PageChanged'']"
  by (simp add: ex_trace_def eval_defs)

text \<open>
  Once a handler call has set \<open>initialLoadComplete\<close> and no call is left inside the
  initial-load block, no further ViewReport entry is logged, whatever events follow.
\<close>

lemma logged_append: "logged n (xs @ ys) = logged n xs @ logged n ys"
  by (induction n xs rule: logged.induct) simp_all

lemma list_all_list_update: "list_all P xs \<Longrightarrow> P x \<Longrightarrow> list_all P (xs[i := x])"
  by (induction xs arbitrary: i) (auto split: nat.splits)

lemma logged_logPage:
  "logPageChangedActivity h c rep p d = Inr a \<Longrightarrow> logged ''ViewReport'' a = []"
  by (auto simp: logPageChangedActivity_def split: option.splits)

lemma logged_logEdit:
  "logged ''ViewReport'' (case logEditReportActivity h rep of Inl e \<Rightarrow> [] | Inr a \<Rightarrow> a) = []
   \<and> logged ''PageChanged'' (case logEditReportActivity h rep of Inl e \<Rightarrow> [] | Inr a \<Rightarrow> a) = []"
  by (auto simp: logEditReportActivity_def split: option.splits sum.splits)

lemma logged_logCopy:
  "logged ''ViewReport'' (case logCopyReportActivity h rep i n of Inl e \<Rightarrow> [] | Inr a \<Rightarrow> a) = []
   \<and> logged ''PageChanged'' (case logCopyReportActivity h rep i n of Inl e \<Rightarrow> [] | Inr a \<Rightarrow> a) = []"
  by (auto simp: logCopyReportActivity_def split: option.splits sum.splits)

lemma logged_refresh: "logged n (refreshEmbedToken_resolved st now tr) = []"
  by (auto simp: refreshEmbedToken_resolved_def monitorTokenExpiration_def refreshEmbedToken_def
      Let_def split: option.splits)

lemma logged_logView:
  "logViewReportActivity h c rep p l d = Inr a \<Longrightarrow>
     logged ''ViewReport'' a \<noteq> [] \<and> logged ''PageChanged'' a = []"
  by (auto simp: logViewReportActivity_def split: option.splits)

lemma page_changed_block_over:
  assumes "initial_load_over r"
  shows "initial_load_over (page_changed_block emb i now r)
         \<and> logged ''ViewReport'' (calls (page_changed_block emb i now r))
             = logged ''ViewReport'' (calls r)"
  using assms
  by (simp add: initial_load_over_def page_changed_block_def list_all_list_update logged_append)

lemma resume_over:
  assumes k: "initial_load_over r" and i: "i < length (pend r)"
  shows "initial_load_over (resume h st emb rep i now (pend r ! i) v r)
         \<and> logged ''ViewReport'' (calls (resume h st emb rep i now (pend r ! i) v r))
             = logged ''ViewReport'' (calls r)"
proof -
  from k i have nv: "\<not> in_view_block (pend r ! i)"
    by (simp add: initial_load_over_def list_all_length)
  show ?thesis
  proof (cases "pend r ! i")
    case PageCorrelationId
    with k show ?thesis
      by (cases v) (simp_all add: initial_load_over_def list_all_list_update logged_append)
  next
    case (PageActivePage c)
    with k show ?thesis
      by (cases v)
        (auto simp: initial_load_over_def list_all_list_update logged_append logged_logPage
          split: sum.splits)
  next
    case PageLogged
    with k show ?thesis
      by (cases v) (simp_all add: initial_load_over_def list_all_list_update)
  next
    case (SavedToken a b)
    with k show ?thesis
      by (cases v)
        (simp_all add: initial_load_over_def list_all_list_update logged_append logged_refresh)
  next
    case (SavedData a b)
    with k show ?thesis
      by (cases v)
        (simp_all add: initial_load_over_def list_all_list_update logged_append logged_logCopy)
  next
    case Finished
    with k show ?thesis by simp
  qed (use nv in simp_all)
qed

lemma step_over:
  assumes k: "initial_load_over r"
  shows "initial_load_over (step h st emb rep r ev)
         \<and> logged ''ViewReport'' (calls (step h st emb rep r ev))
             = logged ''ViewReport'' (calls r)"
proof (cases ev)
  case (Loaded now)
  with k show ?thesis by (simp add: initial_load_over_def)
next
  case (Rendered now)
  from k have "initial_load_over (r\<lparr>pend := pend r @ [Finished]\<rparr>)"
    by (simp add: initial_load_over_def)
  from page_changed_block_over [OF this] k show ?thesis
    by (simp add: Rendered Let_def initial_load_over_def)
next
  case (PageChanged now)
  with k show ?thesis by (simp add: initial_load_over_def)
next
  case (Saved saveAs a b)
  with k show ?thesis
    by (simp add: initial_load_over_def logged_append logged_logEdit refreshEmbedToken_def)
next
  case (Error event)
  with k show ?thesis by (simp add: initial_load_over_def logged_append)
next
  case (Resolved i now v)
  with k resume_over [OF k] show ?thesis by simp
next
  case (Rejected i)
  with k show ?thesis by (simp add: initial_load_over_def list_all_list_update)
qed

lemma no_view_report_after_initial_load:
  "initial_load_over r \<Longrightarrow>
     initial_load_over (run_events h st emb rep r evs)
     \<and> logged ''ViewReport'' (calls (run_events h st emb rep r evs))
         = logged ''ViewReport'' (calls r)"
proof (induction evs arbitrary: r)
  case Nil
  then show ?case by (simp add: run_events_def)
next
  case (Cons ev evs)
  from step_over [OF Cons.prems, of h st emb rep ev]
  have s: "initial_load_over (step h st emb rep r ev)"
    and l: "logged ''ViewReport'' (calls (step h st emb rep r ev)) = logged ''ViewReport'' (calls r)"
    by simp_all
  from Cons.IH [OF s] l show ?case by (simp add: run_events_def)
qed

text \<open>
  A PageChanged entry is never logged before a ViewReport entry: in every state a session
  reaches, a logged PageChanged entry comes with a logged ViewReport entry. (The calls of a
  session only grow, so this holds at the moment the PageChanged entry is sent.)
\<close>

lemma page_changed_block_calls:
  "\<exists>a. calls (page_changed_block emb i now r) = calls r @ a"
  by (simp add: page_changed_block_def)

lemma view_block_log_calls:
  "\<exists>a. calls (view_block_log h rep i c p r) = calls r @ a"
  by (simp add: view_block_log_def split: sum.splits)

lemma resume_calls:
  "\<exists>a. calls (resume h st emb rep i now p v r) = calls r @ a"
proof (cases p)
  case ViewCorrelationId
  then show ?thesis by (cases v) (simp_all add: view_block_log_calls)
next
  case (ViewActivePage c)
  then show ?thesis by (cases v) (simp_all add: view_block_log_calls)
next
  case ViewLogged
  then show ?thesis
    using page_changed_block_calls [of emb i now "r\<lparr>sess := (sess r)\<lparr>initialLoadComplete := True\<rparr>\<rparr>"]
    by (cases v) simp_all
next
  case PageCorrelationId
  then show ?thesis by (cases v) simp_all
next
  case (PageActivePage c)
  then show ?thesis by (cases v) (simp_all split: sum.splits)
next
  case PageLogged
  then show ?thesis by (cases v) simp_all
next
  case (SavedToken a b)
  then show ?thesis by (cases v) simp_all
next
  case (SavedData a b)
  then show ?thesis by (cases v) simp_all
next
  case Finished
  then show ?thesis by simp
qed

lemma step_calls:
  "\<exists>a. calls (step h st emb rep r ev) = calls r @ a"
proof (cases ev)
  case (Rendered now)
  then show ?thesis
    using page_changed_block_calls [of emb "length (pend r)" now "r\<lparr>pend := pend r @ [Finished]\<rparr>"]
    by (simp add: Let_def)
next
  case (Resolved i now v)
  then show ?thesis using resume_calls [of h st emb rep i now "pend r ! i" v r] by simp
qed simp_all

lemma view_block_log_first:
  assumes "list_all (\<lambda>p. \<not> view_logged_by p) (pend r)"
    and "\<not> initialLoadComplete (sess r)" and "\<not> pageChangeInProgress (sess r)"
    and "logged ''PageChanged'' (calls r) = []"
  shows "view_logged_first (view_block_log h rep i c p r)"
proof (cases "logViewReportActivity h c rep p (loadDuration (sess r)) (renderDuration (sess r))")
  case (Inl e)
  with assms show ?thesis
    by (simp add: view_logged_first_def view_block_log_def list_all_list_update)
next
  case (Inr a)
  with logged_logView [OF Inr] show ?thesis
    by (simp add: view_logged_first_def view_block_log_def logged_append)
qed

lemma resume_first:
  assumes np: "list_all (\<lambda>p. \<not> view_logged_by p) (pend r)"
    and ni: "\<not> initialLoadComplete (sess r)" and nc: "\<not> pageChangeInProgress (sess r)"
    and nl: "logged ''PageChanged'' (calls r) = []"
    and i: "i < length (pend r)"
  shows "view_logged_first (resume h st emb rep i now (pend r ! i) v r)"
proof -
  from np i have nv: "\<not> view_logged_by (pend r ! i)" by (simp add: list_all_length)
  have same: "view_logged_first r" using np ni nc nl by (simp add: view_logged_first_def)
  show ?thesis
  proof (cases "pend r ! i")
    case ViewCorrelationId
    with np ni nc nl view_block_log_first [OF np ni nc nl] same show ?thesis
      by (cases v) (simp_all add: view_logged_first_def list_all_list_update logged_append)
  next
    case (ViewActivePage c)
    with view_block_log_first [OF np ni nc nl] same show ?thesis
      by (cases v) simp_all
  next
    case (SavedToken a b)
    with np ni nc nl same show ?thesis
      by (cases v)
        (simp_all add: view_logged_first_def list_all_list_update logged_append logged_refresh)
  next
    case (SavedData a b)
    with np ni nc nl same show ?thesis
      by (cases v)
        (simp_all add: view_logged_first_def list_all_list_update logged_append logged_logCopy)
  next
    case Finished
    with same show ?thesis by simp
  qed (use nv in simp_all)
qed

lemma step_first:
  assumes j: "view_logged_first r"
  shows "view_logged_first (step h st emb rep r ev)"
proof (cases "logged ''ViewReport'' (calls r) = []")
  case False
  from step_calls [of h st emb rep r ev] obtain a
    where "calls (step h st emb rep r ev) = calls r @ a" ..
  with False show ?thesis by (simp add: view_logged_first_def logged_append)
next
  case True
  with j have np: "list_all (\<lambda>p. \<not> view_logged_by p) (pend r)"
    and ni: "\<not> initialLoadComplete (sess r)" and nc: "\<not> pageChangeInProgress (sess r)"
    and nl: "logged ''PageChanged'' (calls r) = []"
    by (simp_all add: view_logged_first_def)
  show ?thesis
  proof (cases ev)
    case (Loaded now)
    with j show ?thesis by (simp add: view_logged_first_def)
  next
    case (Rendered now)
    with np ni nc nl show ?thesis
      by (simp add: view_logged_first_def Let_def list_all_list_update logged_append)
  next
    case (PageChanged now)
    with j ni show ?thesis by simp
  next
    case (Saved saveAs a b)
    with np ni nc nl show ?thesis
      by (simp add: view_logged_first_def logged_append logged_logEdit refreshEmbedToken_def)
  next
    case (Error event)
    with np ni nc nl show ?thesis by (simp add: view_logged_first_def logged_append)
  next
    case (Resolved i now v)
    with j resume_first [OF np ni nc nl] show ?thesis by simp
  next
    case (Rejected i)
    with np ni nc nl show ?thesis by (simp add: view_logged_first_def list_all_list_update)
  qed
qed

lemma run_events_first:
  "view_logged_first r \<Longrightarrow> view_logged_first (run_events h st emb rep r evs)"
proof (induction evs arbitrary: r)
  case Nil
  then show ?case by (simp add: run_events_def)
next
  case (Cons ev evs)
  from Cons.IH [OF step_first [OF Cons.prems]] show ?case by (simp add: run_events_def)
qed

lemma page_changed_only_after_view_report:
  assumes "logged ''PageChanged'' (calls (run_events h st emb rep (start_run t0) evs)) \<noteq> []"
  shows "logged ''ViewReport'' (calls (run_events h st emb rep (start_run t0) evs)) \<noteq> []"
proof -
  have "view_logged_first (start_run t0)"
    by (simp add: view_logged_first_def start_run_def start_session_def)
  then have "view_logged_first (run_events h st emb rep (start_run t0) evs)"
    by (rule run_events_first)
  with assms show ?thesis by (simp add: view_logged_first_def)
qed

text \<open>
  Without a \<open>pageChanged\<close> event no PageChanged entry is logged.
\<close>

lemma view_block_log_no_page:
  "no_page_change r \<Longrightarrow> no_page_change (view_block_log h rep i c p r)"
  by (cases "logViewReportActivity h c rep p (loadDuration (sess r)) (renderDuration (sess r))")
    (auto simp: no_page_change_def view_block_log_def list_all_list_update logged_append
      dest: logged_logView)

lemma page_changed_block_no_page:
  "no_page_change r \<Longrightarrow> no_page_change (page_changed_block emb i now r)"
  by (simp add: no_page_change_def page_changed_block_def list_all_list_update)

lemma resume_no_page:
  assumes n: "no_page_change r" and i: "i < length (pend r)"
  shows "no_page_change (resume h st emb rep i now (pend r ! i) v r)"
proof -
  from n i have nv: "\<not> in_page_block (pend r ! i)"
    by (simp add: no_page_change_def list_all_length)
  show ?thesis
  proof (cases "pend r ! i")
    case ViewCorrelationId
    with n view_block_log_no_page [OF n] show ?thesis
      by (cases v) (simp_all add: no_page_change_def list_all_list_update logged_append)
  next
    case (ViewActivePage c)
    with n view_block_log_no_page [OF n] show ?thesis by (cases v) simp_all
  next
    case ViewLogged
    from n have "no_page_change (r\<lparr>sess := (sess r)\<lparr>initialLoadComplete := True\<rparr>\<rparr>)"
      by (simp add: no_page_change_def)
    from page_changed_block_no_page [OF this] n ViewLogged show ?thesis by (cases v) simp_all
  next
    case (SavedToken a b)
    with n show ?thesis
      by (cases v) (simp_all add: no_page_change_def list_all_list_update logged_append logged_refresh)
  next
    case (SavedData a b)
    with n show ?thesis
      by (cases v) (simp_all add: no_page_change_def list_all_list_update logged_append logged_logCopy)
  next
    case Finished
    with n show ?thesis by simp
  qed (use nv in simp_all)
qed

lemma step_no_page:
  assumes n: "no_page_change r" and e: "\<not> is_PageChanged ev"
  shows "no_page_change (step h st emb rep r ev)"
proof (cases ev)
  case (Loaded now)
  with n show ?thesis by (simp add: no_page_change_def)
next
  case (Rendered now)
  from n have "no_page_change (r\<lparr>pend := pend r @ [Finished]\<rparr>)"
    by (simp add: no_page_change_def)
  from page_changed_block_no_page [OF this] n Rendered show ?thesis
    by (simp add: Let_def no_page_change_def list_all_list_update logged_append)
next
  case (PageChanged now)
  with e show ?thesis by simp
next
  case (Saved saveAs a b)
  with n show ?thesis
    by (simp add: no_page_change_def logged_append logged_logEdit refreshEmbedToken_def)
next
  case (Error event)
  with n show ?thesis by (simp add: no_page_change_def logged_append)
next
  case (Resolved i now v)
  with n resume_no_page [OF n] show ?thesis by simp
next
  case (Rejected i)
  with n show ?thesis by (simp add: no_page_change_def list_all_list_update)
qed

lemma no_page_changed_event_no_entry:
  "no_page_change r \<Longrightarrow> list_all (\<lambda>ev. \<not> is_PageChanged ev) evs \<Longrightarrow>
     logged ''PageChanged'' (calls (run_events h st emb rep r evs)) = []"
proof (induction evs arbitrary: r)
  case Nil
  then show ?case by (simp add: run_events_def no_page_change_def)
next
  case (Cons ev evs)
  from Cons.prems have "no_page_change (step h st emb rep r ev)"
    and "list_all (\<lambda>ev. \<not> is_PageChanged ev) evs"
    by (simp_all add: step_no_page)
  from Cons.IH [OF this] show ?case by (simp add: run_events_def)
qed

end
